theory Spec2Isabelle
  imports Complex_Main
begin

section \<open>Text and paths\<close>

text \<open>
  The analyzer works on Python strings and \<^verbatim>\<open>pathlib\<close> paths. A Python string is
  modelled as a \<^typ>\<open>string\<close>, one \<^typ>\<open>char\<close> per code point, which restricts the
  texts considered to code points below 256. A path is the string \<^verbatim>\<open>str(path)\<close> in
  the normalised form that \<^verbatim>\<open>pathlib\<close> keeps (components separated by a slash, no
  trailing slash).
\<close>

type_synonym path = string

definition starts_with :: "string \<Rightarrow> string \<Rightarrow> bool" where
  "starts_with pre s = (take (length pre) s = pre)"

text \<open>\<^verbatim>\<open>pat in s\<close> on strings: \<open>pat\<close> occurs as a substring of \<open>s\<close>.\<close>

fun contains :: "string \<Rightarrow> string \<Rightarrow> bool" where
  "contains pat [] = (pat = [])"
| "contains pat (c # cs) = (starts_with pat (c # cs) \<or> contains pat cs)"

text \<open>\<^verbatim>\<open>str.lower\<close> on code points below 256.\<close>

definition lower_char :: "char \<Rightarrow> char" where
  "lower_char c =
     (let n = (of_char c :: nat)
      in if (65 \<le> n \<and> n \<le> 90) \<or> (192 \<le> n \<and> n \<le> 222 \<and> n \<noteq> 215)
         then char_of (n + 32) else c)"

definition lower :: "string \<Rightarrow> string" where
  "lower s = map lower_char s"

text \<open>\<^verbatim>\<open>str.isspace\<close> on code points below 256, and \<^verbatim>\<open>str.strip()\<close>.\<close>

definition is_space :: "char \<Rightarrow> bool" where
  "is_space c =
     (let n = (of_char c :: nat)
      in (9 \<le> n \<and> n \<le> 13) \<or> (28 \<le> n \<and> n \<le> 32) \<or> n = 133 \<or> n = 160)"

definition strip :: "string \<Rightarrow> string" where
  "strip s = rev (dropWhile is_space (rev (dropWhile is_space s)))"

text \<open>
  \<^verbatim>\<open>str.splitlines()\<close>: a line ends at a line boundary (\<^verbatim>\<open>\n\<close>, \<^verbatim>\<open>\r\<close>, \<^verbatim>\<open>\r\n\<close>,
  \<^verbatim>\<open>\v\<close>, \<^verbatim>\<open>\f\<close>, \<^verbatim>\<open>\x1c\<close>, \<^verbatim>\<open>\x1d\<close>, \<^verbatim>\<open>\x1e\<close>, \<^verbatim>\<open>\x85\<close>); the text after
  the last boundary is a line only when it is not empty.
\<close>

definition is_linebreak :: "char \<Rightarrow> bool" where
  "is_linebreak c =
     (let n = (of_char c :: nat)
      in (10 \<le> n \<and> n \<le> 13) \<or> (28 \<le> n \<and> n \<le> 30) \<or> n = 133)"

fun splitlines_from :: "string \<Rightarrow> string \<Rightarrow> string list" where
  "splitlines_from cur [] = (if cur = [] then [] else [cur])"
| "splitlines_from cur (c # cs) =
     (if c = CHR 0x0D then
        (case cs of
           [] \<Rightarrow> [cur]
         | d # ds \<Rightarrow> if d = CHR 0x0A then cur # splitlines_from [] ds
                     else cur # splitlines_from [] (d # ds))
      else if is_linebreak c then cur # splitlines_from [] cs
      else splitlines_from (cur @ [c]) cs)"

definition splitlines :: "string \<Rightarrow> string list" where
  "splitlines s = splitlines_from [] s"

text \<open>\<^verbatim>\<open>str(n)\<close> for a non-negative integer, as the f-strings of the issues print it.\<close>

definition digit_char :: "nat \<Rightarrow> char" where
  "digit_char d = char_of (48 + d)"

fun show_nat :: "nat \<Rightarrow> string" where
  "show_nat n = (if n < 10 then [digit_char n] else show_nat (n div 10) @ [digit_char (n mod 10)])"

declare show_nat.simps [simp del]

text \<open>
  \<^verbatim>\<open>Path.name\<close> is the final component, and \<^verbatim>\<open>Path.suffix\<close> its last extension:
  with \<^verbatim>\<open>i = name.rfind('.')\<close>, the suffix is \<^verbatim>\<open>name[i:]\<close> if \<^verbatim>\<open>0 < i < len(name) - 1\<close>
  and the empty string otherwise.
\<close>

definition path_name :: "path \<Rightarrow> string" where
  "path_name p = rev (takeWhile (\<lambda>c. c \<noteq> CHR ''/'') (rev p))"

definition rfind :: "char \<Rightarrow> string \<Rightarrow> nat option" where
  "rfind c s = find (\<lambda>i. s ! i = c) (rev [0..<length s])"

definition suffix_of_name :: "string \<Rightarrow> string" where
  "suffix_of_name name =
     (case rfind CHR ''.'' name of
        None \<Rightarrow> []
      | Some i \<Rightarrow> if 0 < i \<and> Suc i < length name then drop i name else [])"

definition path_suffix :: "path \<Rightarrow> string" where
  "path_suffix p = suffix_of_name (path_name p)"

section \<open>Floats\<close>

text \<open>
  A Python float is a binary64 number; a finite one is modelled by its value, a rational.
  \<open>round_to_double\<close> gives the float nearest to a rational, a tie going to the even
  significand of 53 bits, as the division and the multiplication of floats and the
  reading of a literal do. The exponent range is not limited, so the model is that of
  the floats in the normal range, in which the ratios of line counts and their
  percentages lie.
\<close>

definition round_half_even :: "rat \<Rightarrow> int" where
  "round_half_even q =
     (let f = \<lfloor>q\<rfloor>; d = q - of_int f
      in if d < 1 / 2 then f else if 1 / 2 < d then f + 1
         else if even f then f else f + 1)"

text \<open>
  The exponent \<open>e\<close> with \<open>2\<^sup>e \<le> q < 2\<^sup>e\<^sup>+\<^sup>1\<close>, for a positive \<open>q\<close>: the difference of the
  binary logarithms of numerator and denominator, or one less.
\<close>

function ilog2 :: "int \<Rightarrow> int" where
  "ilog2 a = (if a \<le> 1 then 0 else 1 + ilog2 (a div 2))"
  by pat_completeness auto
termination
  by (relation "measure nat") auto

declare ilog2.simps [simp del]

definition floor_log2 :: "rat \<Rightarrow> int" where
  "floor_log2 q =
     (let (a, b) = quotient_of q; d = ilog2 a - ilog2 b
      in if 2 powi d \<le> q then d else d - 1)"

definition round_to_double :: "rat \<Rightarrow> rat" where
  "round_to_double q =
     (if q = 0 then 0
      else let ulp = 2 powi (floor_log2 \<bar>q\<bar> - 52)
           in sgn q * of_int (round_half_even (\<bar>q\<bar> / ulp)) * ulp)"

section \<open>Configuration constants\<close>

text \<open>
  Python dictionaries keep insertion order; the extension table is an association list
  in the order of the source.
\<close>

definition SUPPORTED_CODE_EXTENSIONS :: "(string \<times> string list) list" where
  "SUPPORTED_CODE_EXTENSIONS =
     [(''python'', [''.py'', ''.pyw'', ''.pyx'', ''.pxd'', ''.pxi'']),
      (''javascript'', [''.js'', ''.jsx'', ''.ts'', ''.tsx'']),
      (''web'', [''.html'', ''.htm'', ''.css'', ''.scss'', ''.sass'']),
      (''java'', [''.java'', ''.class'', ''.jar'']),
      (''c_cpp'', [''.c'', ''.cpp'', ''.h'', ''.hpp'']),
      (''ruby'', [''.rb'', ''.rake'', ''.gemspec'']),
      (''php'', [''.php'', ''.phtml'']),
      (''go'', [''.go'']),
      (''rust'', [''.rs''])]"

definition MAX_FILE_SIZE :: nat where
  "MAX_FILE_SIZE = 10 * 1024 * 1024"

definition CHUNK_SIZE :: nat where
  "CHUNK_SIZE = 1024 * 1024"

definition SIMILARITY_THRESHOLD :: real where
  "SIMILARITY_THRESHOLD = 8 / 10"

definition LOC_MAX :: nat where
  "LOC_MAX = 500"

definition LOC_WARNING :: nat where
  "LOC_WARNING = 300"

text \<open>The float literal \<^verbatim>\<open>0.1\<close>.\<close>

definition COMMENT_RATIO_MIN :: rat where
  "COMMENT_RATIO_MIN = round_to_double (1 / 10)"

section \<open>Classification\<close>

text \<open>
  \<^verbatim>\<open>ProjectAnalyzer._categorize_file\<close>. The loop over the extension table returns at
  the first language whose extension set holds the suffix.
\<close>

fun code_language :: "(string \<times> string list) list \<Rightarrow> string \<Rightarrow> string option" where
  "code_language [] ext = None"
| "code_language ((lang, extensions) # rest) ext =
     (if ext \<in> set extensions then Some lang else code_language rest ext)"

definition doc_extensions :: "string list" where
  "doc_extensions = [''.md'', ''.rst'', ''.txt'', ''.pdf'', ''.doc'', ''.docx'']"

definition config_patterns :: "string list" where
  "config_patterns =
     [''requirements.txt'', ''package.json'', ''setup.py'',
      ''.gitignore'', ''Dockerfile'', ''docker-compose.yml'']"

definition config_extensions :: "string list" where
  "config_extensions = [''.json'', ''.yaml'', ''.yml'', ''.toml'', ''.ini'']"

definition categorize_file :: "path \<Rightarrow> string" where
  "categorize_file filepath =
     (let ext = lower (path_suffix filepath);
          name = lower (path_name filepath)
      in case code_language SUPPORTED_CODE_EXTENSIONS ext of
           Some lang \<Rightarrow> ''code/'' @ lang
         | None \<Rightarrow>
             if ext \<in> set doc_extensions then ''documentation''
             else if name \<in> set config_patterns \<or> ext \<in> set config_extensions
               then ''configuration''
             else if contains ''test'' name \<or> contains ''spec'' name then ''test''
             else ''other'')"

text \<open>
  The classification as the specification words it: an ordered list of rules on the
  lower-cased extension and file name, of which the first that matches decides.
\<close>

definition fixed_categories :: "string list" where
  "fixed_categories =
     map (\<lambda>(lang, extensions). ''code/'' @ lang) SUPPORTED_CODE_EXTENSIONS
       @ [''documentation'', ''configuration'', ''test'', ''other'']"

definition classification_rules :: "((string \<times> string \<Rightarrow> bool) \<times> string) list" where
  "classification_rules =
     map (\<lambda>(lang, extensions). (\<lambda>(ext, name). ext \<in> set extensions, ''code/'' @ lang))
         SUPPORTED_CODE_EXTENSIONS
     @ [(\<lambda>(ext, name). ext \<in> set doc_extensions, ''documentation''),
        (\<lambda>(ext, name). name \<in> set config_patterns \<or> ext \<in> set config_extensions,
         ''configuration''),
        (\<lambda>(ext, name). contains ''test'' name \<or> contains ''spec'' name, ''test''),
        (\<lambda>(ext, name). True, ''other'')]"

definition first_match :: "(('a \<Rightarrow> bool) \<times> 'b) list \<Rightarrow> 'a \<Rightarrow> 'b option" where
  "first_match rules x = map_option snd (find (\<lambda>(p, c). p x) rules)"

section \<open>Data model\<close>

datatype error = OSError | AttributeError | IndexError | TypeError

text \<open>The dataclass \<^verbatim>\<open>FileMetadata\<close>; timestamps are seconds since the epoch.\<close>

record file_metadata =
  path :: path
  size_bytes :: nat
  created :: int
  modified :: int
  mime_type :: string
  encoding :: string
  category :: string
  is_binary :: bool
  hash_hex :: string

text \<open>
  A Python value that is either a number or some other object. The maintainability field
  is annotated as a float, but the Python strategy stores there whatever the external
  \<^verbatim>\<open>h_visit\<close> returns, and the per-language sum fails on a value that is not a number.
\<close>

datatype pyvalue = Number rat | Object

text \<open>The dataclass \<^verbatim>\<open>CodeMetrics\<close>.\<close>

record code_metrics =
  loc :: nat
  sloc :: nat
  comments :: nat
  complexity :: int
  maintainability :: pyvalue
  duplicates :: "string list"
  issues :: "string list"
  function_names :: "string list"
  dependencies :: "string set"

text \<open>The dictionaries of the result: a duplicate pair, a language entry, a category entry.\<close>

record duplicate_pair =
  file1 :: path
  file2 :: path
  similarity :: real

record language_metrics =
  lm_files :: nat
  lm_total_loc :: nat
  lm_avg_complexity :: rat
  lm_avg_maintainability :: rat
  lm_duplicates :: "duplicate_pair list"
  lm_issues :: "string list"

record file_entry =
  fe_path :: path
  fe_size :: nat
  fe_modified :: int
  fe_mime_type :: string

record category_info =
  count :: nat
  total_size :: nat
  files :: "file_entry list"

record code_stats =
  cs_total_loc :: nat
  cs_avg_complexity :: rat
  cs_avg_maintainability :: rat
  cs_total_issues :: nat

record project_summary =
  total_files :: nat
  ps_total_size :: nat
  languages :: "string set"
  code_stats :: code_stats
  categories :: "(string \<times> nat) list"

record analysis_result =
  summary :: project_summary
  categorized :: "(string \<times> category_info) list"
  metrics :: "(string \<times> language_metrics) list"
  timestamp :: string

section \<open>The environment\<close>

text \<open>
  Everything the analyzer obtains from outside its own code is a field of the environment:
  the directory tree, the file system calls, and the library routines (\<^verbatim>\<open>magic\<close>,
  \<^verbatim>\<open>chardet\<close>, \<^verbatim>\<open>hashlib\<close>, \<^verbatim>\<open>radon\<close>, \<^verbatim>\<open>ast\<close>, \<^verbatim>\<open>re\<close>, the TF-IDF
  vectorizer). A call that raises is \<open>None\<close>.
\<close>

datatype fsnode = FileNode string | DirNode string "fsnode list"

record stat_result =
  st_size :: nat
  st_ctime :: int
  st_mtime :: int

record raw_metrics =
  raw_loc :: nat
  raw_sloc :: nat
  raw_comments :: nat

datatype import_node = Import "string list" | ImportFrom "string option"

datatype pattern =
  JsFunctionNames | JsImports | HtmlScriptSrc | HtmlLinkHref | CssImport | CssUrl

record env =
  root_path :: path
  tree :: "fsnode list"
  fs_stat :: "path \<Rightarrow> stat_result option"
  magic_from_file :: "path \<Rightarrow> string option"
  read_bytes :: "path \<Rightarrow> string option"
  chardet_detect :: "string \<Rightarrow> string option"
  sha256_hexdigest :: "string \<Rightarrow> string"
  read_text :: "path \<Rightarrow> string \<Rightarrow> string option"
  radon_analyze :: "string \<Rightarrow> raw_metrics option"
  cc_visit :: "string \<Rightarrow> (string \<times> int) list option"
  h_visit :: "string \<Rightarrow> pyvalue option"
  ast_imports :: "string \<Rightarrow> import_node list option"
  re_captures :: "pattern \<Rightarrow> string \<Rightarrow> string list"
  tfidf_fit :: "string list \<Rightarrow> (string \<Rightarrow> real list) option"
  now :: string

text \<open>
  \<^item> \<open>tree\<close> lists the entries of the root directory, in the order \<^verbatim>\<open>os.walk\<close>
    reports them; \<open>fs_stat\<close> is \<^verbatim>\<open>Path.stat()\<close>.
  \<^item> \<open>read_bytes p\<close> is the content that \<^verbatim>\<open>open(p, 'rb')\<close> reads, and
    \<open>read_text p enc\<close> what \<^verbatim>\<open>open(p, 'r', encoding=enc).read()\<close> returns.
  \<^item> \<open>chardet_detect raw\<close> is the \<^verbatim>\<open>'encoding'\<close> entry of \<^verbatim>\<open>chardet.detect(raw)\<close>,
    \<open>None\<close> when the detection is inconclusive.
  \<^item> \<open>radon_analyze\<close>, \<open>cc_visit\<close> (name and complexity of each block) and \<open>h_visit\<close> are
    the \<^verbatim>\<open>radon\<close> routines; \<open>ast_imports\<close> gives the import nodes that \<^verbatim>\<open>ast.walk\<close>
    meets in the parsed module.
  \<^item> \<open>re_captures pat text\<close> is the captured text of every match of one of the regular
    expressions that extract function names and dependencies.
  \<^item> \<open>tfidf_fit docs\<close> fits the vectorizer on the documents and returns the map from a
    document to its row of the TF-IDF matrix.
\<close>

section \<open>Discovery and metadata extraction\<close>

text \<open>
  \<^verbatim>\<open>ProjectAnalyzer._collect_files\<close>. \<^verbatim>\<open>os.walk\<close> reports a directory, whose files the
  loop then visits, before it descends into the subdirectories that the in-place filter
  on \<^verbatim>\<open>dirs\<close> has kept. \<^verbatim>\<open>filepath.stat()\<close> is outside any handler: when it raises,
  so does the whole collection.
\<close>

definition join_path :: "path \<Rightarrow> string \<Rightarrow> path" where
  "join_path dir name = dir @ ''/'' @ name"

fun collect_filenames :: "env \<Rightarrow> path \<Rightarrow> fsnode list \<Rightarrow> error + path list" where
  "collect_filenames E dir [] = Inr []"
| "collect_filenames E dir (DirNode d sub # es) = collect_filenames E dir es"
| "collect_filenames E dir (FileNode filename # es) =
     (if starts_with ''.'' filename then collect_filenames E dir es
      else case fs_stat E (join_path dir filename) of
             None \<Rightarrow> Inl OSError
           | Some st \<Rightarrow>
               if st_size st > MAX_FILE_SIZE then collect_filenames E dir es
               else (case collect_filenames E dir es of
                       Inl e \<Rightarrow> Inl e
                     | Inr fs \<Rightarrow> Inr (join_path dir filename # fs)))"

fun walk :: "env \<Rightarrow> path \<Rightarrow> fsnode list \<Rightarrow> error + path list"
  and walk_dirs :: "env \<Rightarrow> path \<Rightarrow> fsnode list \<Rightarrow> error + path list" where
  "walk E dir es =
     (case collect_filenames E dir es of
        Inl e \<Rightarrow> Inl e
      | Inr fs \<Rightarrow> (case walk_dirs E dir es of Inl e \<Rightarrow> Inl e | Inr gs \<Rightarrow> Inr (fs @ gs)))"
| "walk_dirs E dir [] = Inr []"
| "walk_dirs E dir (FileNode filename # es) = walk_dirs E dir es"
| "walk_dirs E dir (DirNode d sub # es) =
     (if starts_with ''.'' d then walk_dirs E dir es
      else case walk E (join_path dir d) sub of
             Inl e \<Rightarrow> Inl e
           | Inr fs \<Rightarrow> (case walk_dirs E dir es of Inl e \<Rightarrow> Inl e | Inr gs \<Rightarrow> Inr (fs @ gs)))"

definition collect_files :: "env \<Rightarrow> error + path list" where
  "collect_files E = walk E (root_path E) (tree E)"

text \<open>
  \<^verbatim>\<open>ProjectAnalyzer._calculate_file_hash\<close> feeds the file to the hash in blocks of 4096
  bytes; the digest is that of the whole content.
\<close>

definition calculate_file_hash :: "env \<Rightarrow> path \<Rightarrow> string option" where
  "calculate_file_hash E filepath = map_option (sha256_hexdigest E) (read_bytes E filepath)"

text \<open>
  \<^verbatim>\<open>ProjectAnalyzer._analyze_file\<close>. The whole body is inside a handler that logs the
  exception and returns \<^verbatim>\<open>None\<close>. The entry written to \<^verbatim>\<open>file_cache\<close> is never read
  and is left out.
\<close>

definition detect_encoding :: "env \<Rightarrow> path \<Rightarrow> string \<Rightarrow> (string \<times> bool) option" where
  "detect_encoding E filepath mime =
     (if starts_with ''text/'' mime then
        (case read_bytes E filepath of
           None \<Rightarrow> None
         | Some content \<Rightarrow>
             (case chardet_detect E (take CHUNK_SIZE content) of
                None \<Rightarrow> Some (''utf-8'', False)
              | Some enc \<Rightarrow> Some (if enc = [] then ''utf-8'' else enc, False)))
      else Some (''binary'', True))"

definition analyze_file :: "env \<Rightarrow> path \<Rightarrow> file_metadata option" where
  "analyze_file E filepath =
     (case fs_stat E filepath of
        None \<Rightarrow> None
      | Some st \<Rightarrow>
          (case magic_from_file E filepath of
             None \<Rightarrow> None
           | Some mime \<Rightarrow>
               (case detect_encoding E filepath mime of
                  None \<Rightarrow> None
                | Some (enc, binary) \<Rightarrow>
                    (case calculate_file_hash E filepath of
                       None \<Rightarrow> None
                     | Some file_hash \<Rightarrow>
                         Some \<lparr>path = filepath, size_bytes = st_size st,
                               created = st_ctime st, modified = st_mtime st,
                               mime_type = mime, encoding = enc,
                               category = categorize_file filepath,
                               is_binary = binary, hash_hex = file_hash\<rparr>))))"

section \<open>Metric engine\<close>

subsection \<open>Comment counting\<close>

text \<open>
  The JavaScript strategy scans the stripped lines, carrying the flag \<^verbatim>\<open>in_multiline\<close>
  from line to line.
\<close>

fun js_comments :: "bool \<Rightarrow> nat \<Rightarrow> string list \<Rightarrow> nat" where
  "js_comments in_multiline n [] = n"
| "js_comments in_multiline n (l # ls) =
     (let line = strip l
      in if starts_with ''//'' line then js_comments in_multiline (n + 1) ls
         else if contains ''/*'' line \<and> contains ''*/'' line
           then js_comments in_multiline (n + 1) ls
         else if contains ''/*'' line then js_comments True (n + 1) ls
         else if contains ''*/'' line then js_comments False (n + 1) ls
         else if in_multiline then js_comments in_multiline (n + 1) ls
         else js_comments in_multiline n ls)"

text \<open>
  The markup and stylesheet strategies count the matches of \<^verbatim>\<open><!--[\s\S]*?-->\<close> and
  \<^verbatim>\<open>/\*[\s\S]*?\*/\<close> that \<^verbatim>\<open>re.findall\<close> returns: matches are found from left to
  right and do not overlap; each starts at the next opening delimiter and, the
  quantifier being lazy, ends with the first closing delimiter after it. An opening
  delimiter with no closing delimiter after it matches nothing, and then neither does
  any later one.
\<close>

fun find_after :: "string \<Rightarrow> string \<Rightarrow> string option" where
  "find_after pat [] = (if pat = [] then Some [] else None)"
| "find_after pat (c # cs) =
     (if starts_with pat (c # cs) then Some (drop (length pat) (c # cs))
      else find_after pat cs)"

function count_spans :: "string \<Rightarrow> string \<Rightarrow> string \<Rightarrow> nat" where
  "count_spans [] cl s = 0"
| "count_spans (a # op) cl s =
     (case find_after (a # op) s of
        None \<Rightarrow> 0
      | Some r \<Rightarrow>
          (case find_after cl r of
             None \<Rightarrow> 0
           | Some r' \<Rightarrow> Suc (count_spans (a # op) cl r')))"
  by pat_completeness auto
termination
proof (relation "measure (\<lambda>(op, cl, s). length s)")
  show "wf (measure (\<lambda>(op, cl, s). length s))" by simp
next
  fix a :: char and op cl s r r'
  assume found: "find_after (a # op) s = Some r" "find_after cl r = Some r'"
  have no_longer: "find_after pat t = Some u \<Longrightarrow> length u \<le> length t" for pat t u
    by (induction t) (auto split: if_splits)
  have shorter: "find_after (b # pat) t = Some u \<Longrightarrow> length u < length t" for b pat t u
    by (induction t) (auto split: if_splits)
  from found have "length r' < length s"
    using shorter [of a op s r] no_longer [of cl r r'] by simp
  then show "((a # op, cl, r'), (a # op, cl, s)) \<in> measure (\<lambda>(op, cl, s). length s)"
    by simp
qed

declare count_spans.simps [simp del]

definition html_comments :: "string \<Rightarrow> nat" where
  "html_comments content = count_spans ''<!--'' ''-->'' content"

definition css_comments :: "string \<Rightarrow> nat" where
  "css_comments content = count_spans ''/*'' ''*/'' content"

subsection \<open>Dependencies\<close>

text \<open>
  \<^verbatim>\<open>ProjectAnalyzer._extract_dependencies\<close> compares the suffix as it is written (not
  lower-cased). A parse failure is caught and leaves the set empty.
\<close>

fun import_names :: "import_node \<Rightarrow> string set" where
  "import_names (Import names) = set names"
| "import_names (ImportFrom modname) = {case modname of None \<Rightarrow> [] | Some m \<Rightarrow> m}"

definition extract_dependencies :: "env \<Rightarrow> string \<Rightarrow> path \<Rightarrow> string set" where
  "extract_dependencies E content filepath =
     (if path_suffix filepath = ''.py'' then
        (case ast_imports E content of
           None \<Rightarrow> {}
         | Some nodes \<Rightarrow> \<Union> (set (map import_names nodes)))
      else if path_suffix filepath \<in> {''.js'', ''.ts'', ''.jsx'', ''.tsx''}
        then set (re_captures E JsImports content)
      else {})"

subsection \<open>Issues\<close>

text \<open>
  \<^verbatim>\<open>comments / sloc\<close> divides two integers into a float: the double nearest to the
  quotient. The value is 0, an integer, when there is no non-blank line.
\<close>

definition comment_ratio :: "nat \<Rightarrow> nat \<Rightarrow> rat" where
  "comment_ratio n_comments n_sloc =
     (if n_sloc > 0 then round_to_double (of_nat n_comments / of_nat n_sloc) else 0)"

text \<open>
  The format \<^verbatim>\<open>.2%\<close> of a non-negative number: the value is multiplied by 100 as a
  float, and the product is printed with two decimals, rounded from its exact binary
  value (a tie goes to the even digit), followed by the percent sign.
\<close>

definition format_percent2 :: "rat \<Rightarrow> string" where
  "format_percent2 r =
     (let n = round_half_even (round_to_double (r * 100) * 100)
      in show_nat (nat (n div 100)) @ ''.''
           @ [digit_char (nat (n mod 100 div 10)), digit_char (nat (n mod 10))] @ ''%'')"

definition loc_issues :: "nat \<Rightarrow> string list" where
  "loc_issues n_sloc =
     (if n_sloc > LOC_MAX then [''File too long: '' @ show_nat n_sloc @ '' lines'']
      else if n_sloc > LOC_WARNING
        then [''Warning: File approaching maximum length: '' @ show_nat n_sloc @ '' lines'']
      else [])"

definition ratio_issues :: "nat \<Rightarrow> nat \<Rightarrow> string list" where
  "ratio_issues n_comments n_sloc =
     (if comment_ratio n_comments n_sloc < COMMENT_RATIO_MIN
      then [''Low comment ratio: '' @ format_percent2 (comment_ratio n_comments n_sloc)]
      else [])"

subsection \<open>Metrics of one file\<close>

text \<open>
  \<^verbatim>\<open>ProjectAnalyzer._get_code_metrics\<close> dispatches on the lower-cased suffix. The body
  below the cache lookup is \<open>compute_metrics\<close>; every exception in it is caught by the
  handler of the method, which returns \<^verbatim>\<open>None\<close>.
\<close>

datatype strategy = Python | JavaScript | Html | Css | Generic

definition strategy_of :: "string \<Rightarrow> strategy" where
  "strategy_of ext =
     (if ext \<in> {''.py'', ''.pyw''} then Python
      else if ext \<in> {''.js'', ''.jsx'', ''.ts'', ''.tsx''} then JavaScript
      else if ext \<in> {''.html'', ''.htm''} then Html
      else if ext \<in> {''.css'', ''.scss'', ''.sass''} then Css
      else Generic)"

text \<open>
  The inner handler of the Python strategy: when \<^verbatim>\<open>cc_visit\<close> raises, complexity,
  functions and maintainability keep their defaults; when only \<^verbatim>\<open>h_visit\<close> raises,
  the maintainability does.
\<close>

definition python_complexity :: "env \<Rightarrow> string \<Rightarrow> int \<times> string list \<times> pyvalue" where
  "python_complexity E content =
     (case cc_visit E content of
        None \<Rightarrow> (0, [], Number 100)
      | Some items \<Rightarrow>
          (let cx = foldl (\<lambda>c item. max c (snd item)) 0 items;
               fns = map fst items
           in case h_visit E content of
                None \<Rightarrow> (cx, fns, Number 100)
              | Some h \<Rightarrow> (cx, fns, h)))"

text \<open>The common tail of the method: the issues and the record.\<close>

definition build_metrics ::
  "nat \<Rightarrow> nat \<Rightarrow> nat \<Rightarrow> int \<Rightarrow> pyvalue \<Rightarrow> string list \<Rightarrow> string set \<Rightarrow> code_metrics" where
  "build_metrics n_loc n_sloc n_comments cx mi fns deps =
     \<lparr>loc = n_loc, sloc = n_sloc, comments = n_comments, complexity = cx,
      maintainability = mi, duplicates = [],
      issues = loc_issues n_sloc @ ratio_issues n_comments n_sloc,
      function_names = fns, dependencies = deps\<rparr>"

definition compute_metrics :: "env \<Rightarrow> file_metadata \<Rightarrow> code_metrics option" where
  "compute_metrics E fm =
     (case read_text E (path fm) (encoding fm) of
        None \<Rightarrow> None
      | Some content \<Rightarrow>
          (let n_loc = length (splitlines content);
               n_sloc = length (filter (\<lambda>line. strip line \<noteq> []) (splitlines content))
           in case strategy_of (lower (path_suffix (path fm))) of
                Python \<Rightarrow>
                  (case radon_analyze E content of
                     None \<Rightarrow> None
                   | Some raw \<Rightarrow>
                       (let (cx, fns, mi) = python_complexity E content
                        in Some (build_metrics (raw_loc raw) (raw_sloc raw) (raw_comments raw)
                                   cx mi fns (extract_dependencies E content (path fm)))))
              | JavaScript \<Rightarrow>
                  Some (build_metrics n_loc n_sloc (js_comments False 0 (splitlines content))
                          0 (Number 100) (re_captures E JsFunctionNames content)
                          (extract_dependencies E content (path fm)))
              | Html \<Rightarrow>
                  Some (build_metrics n_loc n_sloc (html_comments content) 0 (Number 100) []
                          (set (re_captures E HtmlScriptSrc content)
                             \<union> set (re_captures E HtmlLinkHref content)))
              | Css \<Rightarrow>
                  Some (build_metrics n_loc n_sloc (css_comments content) 0 (Number 100) []
                          (set (re_captures E CssImport content)
                             \<union> set (re_captures E CssUrl content)))
              | Generic \<Rightarrow> Some (build_metrics n_loc n_sloc 0 0 (Number 100) [] {})))"

text \<open>
  The cache \<^verbatim>\<open>code_cache\<close> maps a path to the metrics computed for it. It is the only
  state of the analyzer that is read again.
\<close>

type_synonym code_cache = "path \<rightharpoonup> code_metrics"

definition get_code_metrics ::
  "env \<Rightarrow> code_cache \<Rightarrow> file_metadata \<Rightarrow> code_metrics option \<times> code_cache" where
  "get_code_metrics E cache fm =
     (case cache (path fm) of
        Some m \<Rightarrow> (Some m, cache)
      | None \<Rightarrow>
          (case compute_metrics E fm of
             None \<Rightarrow> (None, cache)
           | Some m \<Rightarrow> (Some m, cache(path fm \<mapsto> m))))"

text \<open>
  \<^verbatim>\<open>executor.map(self._get_code_metrics, files)\<close>: the results come in the order of the
  files. The calls are taken one after the other; each writes only the cache entry of
  its own path.
\<close>

fun map_get_code_metrics ::
  "env \<Rightarrow> code_cache \<Rightarrow> file_metadata list \<Rightarrow> code_metrics option list \<times> code_cache" where
  "map_get_code_metrics E cache [] = ([], cache)"
| "map_get_code_metrics E cache (fm # fms) =
     (let (r, cache') = get_code_metrics E cache fm;
          (rs, cache'') = map_get_code_metrics E cache' fms
      in (r # rs, cache''))"

section \<open>Similarity engine\<close>

text \<open>
  Modelled from the spec: the pairwise cosine similarity of the rows of the TF-IDF
  matrix. The source obtains it from the library routine \<^verbatim>\<open>cosine_similarity\<close>, which
  is not part of the sources: each row is divided by its Euclidean norm (a zero row is
  kept), and entry \<open>(i, j)\<close> is the inner product of the normalised rows \<open>i\<close> and \<open>j\<close>.
  The arithmetic is exact.
\<close>

definition dot :: "real list \<Rightarrow> real list \<Rightarrow> real" where
  "dot u v = sum_list (map2 (*) u v)"

definition normalize_row :: "real list \<Rightarrow> real list" where
  "normalize_row v = (let n = sqrt (dot v v) in if n = 0 then v else map (\<lambda>x. x / n) v)"

definition cosine_similarity :: "real list list \<Rightarrow> real list list" where
  "cosine_similarity X =
     (let Xn = map normalize_row X in map (\<lambda>u. map (\<lambda>v. dot u v) Xn) Xn)"

text \<open>
  \<^verbatim>\<open>ProjectAnalyzer._find_duplicates\<close>. A file that cannot be read contributes the
  empty document. When the vectorizer raises, the handler of the method returns the
  list as it is then, which is empty.
\<close>

definition read_contents :: "env \<Rightarrow> file_metadata list \<Rightarrow> string list" where
  "read_contents E fms =
     map (\<lambda>fm. case read_text E (path fm) (encoding fm) of None \<Rightarrow> [] | Some c \<Rightarrow> c) fms"

definition similarity_matrix :: "env \<Rightarrow> file_metadata list \<Rightarrow> real list list option" where
  "similarity_matrix E fms =
     (let contents = read_contents E fms
      in if contents = [] then None
         else case tfidf_fit E contents of
                None \<Rightarrow> None
              | Some row \<Rightarrow> Some (cosine_similarity (map row contents)))"

definition scan_pairs :: "file_metadata list \<Rightarrow> real list list \<Rightarrow> duplicate_pair list" where
  "scan_pairs fms K =
     concat (map (\<lambda>i.
       concat (map (\<lambda>j.
         if K ! i ! j > SIMILARITY_THRESHOLD
         then [\<lparr>file1 = path (fms ! i), file2 = path (fms ! j), similarity = K ! i ! j\<rparr>]
         else [])
         [i + 1..<length fms]))
       [0..<length fms])"

definition find_duplicates :: "env \<Rightarrow> file_metadata list \<Rightarrow> duplicate_pair list" where
  "find_duplicates E fms =
     (case similarity_matrix E fms of None \<Rightarrow> [] | Some K \<Rightarrow> scan_pairs fms K)"

section \<open>Per-language metrics\<close>

text \<open>\<^verbatim>\<open>category.split('/')[1]\<close>; the index raises when there is no second part.\<close>

fun split_on :: "char \<Rightarrow> string \<Rightarrow> string list" where
  "split_on sep [] = [[]]"
| "split_on sep (c # cs) =
     (case split_on sep cs of
        [] \<Rightarrow> [[]]
      | w # ws \<Rightarrow> if c = sep then [] # w # ws else (c # w) # ws)"

definition language_of :: "string \<Rightarrow> error + string" where
  "language_of cat =
     (case split_on CHR ''/'' cat of a # b # parts \<Rightarrow> Inr b | _ \<Rightarrow> Inl IndexError)"

text \<open>\<^verbatim>\<open>by_language.setdefault(lang, []).append(file)\<close> on an insertion-ordered dictionary.\<close>

fun setdefault_append :: "'k \<Rightarrow> 'v \<Rightarrow> ('k \<times> 'v list) list \<Rightarrow> ('k \<times> 'v list) list" where
  "setdefault_append k v [] = [(k, [v])]"
| "setdefault_append k v ((k', vs) # kvs) =
     (if k' = k then (k', vs @ [v]) # kvs else (k', vs) # setdefault_append k v kvs)"

fun group_by_language ::
  "(string \<times> file_metadata list) list \<Rightarrow> file_metadata list
     \<Rightarrow> error + (string \<times> file_metadata list) list" where
  "group_by_language by_language [] = Inr by_language"
| "group_by_language by_language (fm # fms) =
     (case language_of (category fm) of
        Inl e \<Rightarrow> Inl e
      | Inr lang \<Rightarrow> group_by_language (setdefault_append lang fm by_language) fms)"

text \<open>\<^verbatim>\<open>[m for m in file_metrics if m]\<close>: a dataclass instance is true, \<^verbatim>\<open>None\<close> is not.\<close>

fun valid_results :: "'a option list \<Rightarrow> 'a list" where
  "valid_results [] = []"
| "valid_results (None # rs) = valid_results rs"
| "valid_results (Some m # rs) = m # valid_results rs"

text \<open>\<^verbatim>\<open>sum\<close> adds from the left, starting at 0, and raises at a value that is no number.\<close>

fun sum_values :: "rat \<Rightarrow> pyvalue list \<Rightarrow> error + rat" where
  "sum_values acc [] = Inr acc"
| "sum_values acc (Number x # vs) = sum_values (acc + x) vs"
| "sum_values acc (Object # vs) = Inl TypeError"

definition aggregate_issues :: "code_metrics list \<Rightarrow> string list" where
  "aggregate_issues file_metrics = concat (map issues file_metrics)"

definition language_entry ::
  "nat \<Rightarrow> code_metrics list \<Rightarrow> duplicate_pair list \<Rightarrow> error + language_metrics" where
  "language_entry n_files valid_metrics dups =
     (if valid_metrics \<noteq> [] then
        (case sum_values 0 (map maintainability valid_metrics) of
           Inl e \<Rightarrow> Inl e
         | Inr msum \<Rightarrow>
             Inr \<lparr>lm_files = n_files,
                  lm_total_loc = sum_list (map loc valid_metrics),
                  lm_avg_complexity =
                    of_int (sum_list (map complexity valid_metrics))
                      / of_nat (length valid_metrics),
                  lm_avg_maintainability = msum / of_nat (length valid_metrics),
                  lm_duplicates = dups,
                  lm_issues = aggregate_issues valid_metrics\<rparr>)
      else Inr \<lparr>lm_files = n_files, lm_total_loc = 0, lm_avg_complexity = 0,
                lm_avg_maintainability = 0, lm_duplicates = [], lm_issues = []\<rparr>)"

text \<open>The body of the handler in \<^verbatim>\<open>_analyze_code_files\<close> for one language group.\<close>

definition analyze_group ::
  "env \<Rightarrow> code_cache \<Rightarrow> file_metadata list \<Rightarrow> (error + language_metrics) \<times> code_cache" where
  "analyze_group E cache fms =
     (let (file_metrics, cache') = map_get_code_metrics E cache fms;
          dups = find_duplicates E fms
      in (language_entry (length fms) (valid_results file_metrics) dups, cache'))"

text \<open>
  The loop over the groups. A group whose body raises is logged and skipped
  (\<^verbatim>\<open>continue\<close>); the second component of the result lists the languages so logged.
\<close>

fun analyze_groups ::
  "env \<Rightarrow> code_cache \<Rightarrow> (string \<times> file_metadata list) list
     \<Rightarrow> (string \<times> language_metrics) list \<times> string list \<times> code_cache" where
  "analyze_groups E cache [] = ([], [], cache)"
| "analyze_groups E cache ((lang, fms) # groups) =
     (let (r, cache') = analyze_group E cache fms;
          (ms, failed, cache'') = analyze_groups E cache' groups
      in case r of
           Inl e \<Rightarrow> (ms, lang # failed, cache'')
         | Inr entry \<Rightarrow> ((lang, entry) # ms, failed, cache''))"

definition analyze_code_files ::
  "env \<Rightarrow> code_cache \<Rightarrow> file_metadata list
     \<Rightarrow> error + (string \<times> language_metrics) list \<times> string list \<times> code_cache" where
  "analyze_code_files E cache code_files =
     (case group_by_language [] code_files of
        Inl e \<Rightarrow> Inl e
      | Inr by_language \<Rightarrow> Inr (analyze_groups E cache by_language))"

section \<open>Aggregation and the run\<close>

text \<open>
  \<^verbatim>\<open>ProjectAnalyzer._categorize_files\<close> skips the entries that are \<^verbatim>\<open>None\<close> (the files
  whose metadata extraction failed).
\<close>

definition file_entry_of :: "file_metadata \<Rightarrow> file_entry" where
  "file_entry_of fm =
     \<lparr>fe_path = path fm, fe_size = size_bytes fm, fe_modified = modified fm,
      fe_mime_type = mime_type fm\<rparr>"

fun add_to_category ::
  "file_metadata \<Rightarrow> (string \<times> category_info) list \<Rightarrow> (string \<times> category_info) list" where
  "add_to_category fm [] =
     [(category fm, \<lparr>count = 1, total_size = size_bytes fm, files = [file_entry_of fm]\<rparr>)]"
| "add_to_category fm ((c, info) # cats) =
     (if c = category fm
      then (c, \<lparr>count = count info + 1, total_size = total_size info + size_bytes fm,
                files = files info @ [file_entry_of fm]\<rparr>) # cats
      else (c, info) # add_to_category fm cats)"

fun categorize_files ::
  "(string \<times> category_info) list \<Rightarrow> file_metadata option list
     \<Rightarrow> (string \<times> category_info) list" where
  "categorize_files cats [] = cats"
| "categorize_files cats (None # fms) = categorize_files cats fms"
| "categorize_files cats (Some fm # fms) = categorize_files (add_to_category fm cats) fms"

text \<open>
  \<^verbatim>\<open>[f for f in file_metadata if f.category.startswith('code/')]\<close> in
  \<^verbatim>\<open>analyze_project\<close>: reading the attribute of an entry that is \<^verbatim>\<open>None\<close> raises
  \<^verbatim>\<open>AttributeError\<close>.
\<close>

fun select_code_files :: "file_metadata option list \<Rightarrow> error + file_metadata list" where
  "select_code_files [] = Inr []"
| "select_code_files (None # fms) = Inl AttributeError"
| "select_code_files (Some fm # fms) =
     (case select_code_files fms of
        Inl e \<Rightarrow> Inl e
      | Inr cs \<Rightarrow> Inr (if starts_with ''code/'' (category fm) then fm # cs else cs))"

text \<open>
  \<^verbatim>\<open>ProjectAnalyzer._generate_project_summary\<close>. The loop over the language entries
  adds up each statistic; the two means are then divided by the number of languages
  when there is one. The list made of the language set has no determined order and is
  kept as a set.
\<close>

definition generate_project_summary ::
  "(string \<times> category_info) list \<Rightarrow> (string \<times> language_metrics) list \<Rightarrow> project_summary" where
  "generate_project_summary categorized_files code_metrics =
     (let total_loc = sum_list (map (\<lambda>(lang, m). lm_total_loc m) code_metrics);
          sum_complexity = sum_list (map (\<lambda>(lang, m). lm_avg_complexity m) code_metrics);
          sum_maintainability =
            sum_list (map (\<lambda>(lang, m). lm_avg_maintainability m) code_metrics);
          total_issues = sum_list (map (\<lambda>(lang, m). length (lm_issues m)) code_metrics);
          langs = set (map fst code_metrics)
      in \<lparr>total_files = sum_list (map (\<lambda>(c, info). count info) categorized_files),
          ps_total_size = sum_list (map (\<lambda>(c, info). total_size info) categorized_files),
          languages = langs,
          code_stats =
            \<lparr>cs_total_loc = total_loc,
             cs_avg_complexity =
               (if langs \<noteq> {} then sum_complexity / of_nat (card langs)
                else sum_complexity),
             cs_avg_maintainability =
               (if langs \<noteq> {} then sum_maintainability / of_nat (card langs)
                else sum_maintainability),
             cs_total_issues = total_issues\<rparr>,
          categories = map (\<lambda>(c, info). (c, count info)) categorized_files\<rparr>)"

text \<open>
  \<^verbatim>\<open>ProjectAnalyzer.analyze_project\<close>. Its handler logs the exception and raises it
  again, so an exception of the body is the result of the run. The result comes with
  the languages logged as failed and the cache after the run.
\<close>

definition analyze_project ::
  "env \<Rightarrow> code_cache \<Rightarrow> error + analysis_result \<times> string list \<times> code_cache" where
  "analyze_project E cache =
     (case collect_files E of
        Inl e \<Rightarrow> Inl e
      | Inr discovered \<Rightarrow>
          (let file_metadata = map (analyze_file E) discovered;
               categorized_files = categorize_files [] file_metadata
           in case select_code_files file_metadata of
                Inl e \<Rightarrow> Inl e
              | Inr code_files \<Rightarrow>
                  (case analyze_code_files E cache code_files of
                     Inl e \<Rightarrow> Inl e
                   | Inr (code_metrics, failed, cache') \<Rightarrow>
                       Inr (\<lparr>summary = generate_project_summary categorized_files code_metrics,
                             categorized = categorized_files,
                             metrics = code_metrics,
                             timestamp = now E\<rparr>, failed, cache'))))"

section \<open>Notions used in the statements\<close>

text \<open>
  The cache of a run holds only what the run has stored: every entry is the metrics
  that \<open>compute_metrics\<close> gives for a file of that path. A fresh analyzer starts with
  the empty cache.
\<close>

definition cache_sound :: "env \<Rightarrow> code_cache \<Rightarrow> bool" where
  "cache_sound E cache =
     (\<forall>p m. cache p = Some m \<longrightarrow> (\<exists>fm. path fm = p \<and> compute_metrics E fm = Some m))"

text \<open>
  The counts that the external line counter reports are consistent: neither the source
  lines nor the comments exceed the lines.
\<close>

definition raw_counts_ok :: "env \<Rightarrow> bool" where
  "raw_counts_ok E =
     (\<forall>content raw. radon_analyze E content = Some raw \<longrightarrow>
        raw_sloc raw \<le> raw_loc raw \<and> raw_comments raw \<le> raw_loc raw)"

definition number_of :: "pyvalue \<Rightarrow> rat" where
  "number_of v = (case v of Number x \<Rightarrow> x | Object \<Rightarrow> 0)"

definition zero_entry :: "nat \<Rightarrow> language_metrics" where
  "zero_entry n_files =
     \<lparr>lm_files = n_files, lm_total_loc = 0, lm_avg_complexity = 0,
      lm_avg_maintainability = 0, lm_duplicates = [], lm_issues = []\<rparr>"

section \<open>Example environments\<close>

text \<open>
  An environment in which every outside call fails, and one built from a directory
  tree and the texts of its files: every listed file is a readable text file.
\<close>

definition null_env :: env where
  "null_env =
     \<lparr>root_path = ''proj'', tree = [], fs_stat = (\<lambda>p. None),
      magic_from_file = (\<lambda>p. None), read_bytes = (\<lambda>p. None),
      chardet_detect = (\<lambda>raw. None), sha256_hexdigest = (\<lambda>content. ''00''),
      read_text = (\<lambda>p enc. None), radon_analyze = (\<lambda>content. None),
      cc_visit = (\<lambda>content. None), h_visit = (\<lambda>content. None),
      ast_imports = (\<lambda>content. None), re_captures = (\<lambda>pat content. []),
      tfidf_fit = (\<lambda>docs. None), now = ''2024-01-01T00:00:00''\<rparr>"

definition text_env :: "fsnode list \<Rightarrow> (path \<times> string) list \<Rightarrow> env" where
  "text_env t texts =
     null_env
       \<lparr>tree := t,
        fs_stat := (\<lambda>p. map_option
                      (\<lambda>c. \<lparr>st_size = length c, st_ctime = 0, st_mtime = 0\<rparr>) (map_of texts p)),
        magic_from_file := (\<lambda>p. map_option (\<lambda>c. ''text/plain'') (map_of texts p)),
        read_bytes := map_of texts,
        chardet_detect := (\<lambda>raw. Some ''ascii''),
        read_text := (\<lambda>p enc. map_of texts p)\<rparr>"

definition text_file :: "path \<Rightarrow> file_metadata" where
  "text_file p =
     \<lparr>path = p, size_bytes = 0, created = 0, modified = 0, mime_type = ''text/plain'',
      encoding = ''ascii'', category = categorize_file p, is_binary = False,
      hash_hex = ''00''\<rparr>"

definition html_env :: env where
  "html_env = text_env [FileNode ''page.html''] [(''proj/page.html'', ''<!--a--><!--b-->'')]"

definition html_metrics :: code_metrics where
  "html_metrics =
     \<lparr>loc = 1, sloc = 1, comments = 2, complexity = 0, maintainability = Number 100,
      duplicates = [], issues = [], function_names = [], dependencies = {}\<rparr>"

text \<open>
  Two scripts of ten lines, nine of them not blank: one with a single comment line, one
  with none. And a file of \<open>n\<close> lines of code in a language without a strategy of its own.
\<close>

definition ratio_env :: env where
  "ratio_env =
     text_env [FileNode ''one.js'', FileNode ''none.js'']
       [(''proj/one.js'',
         ''// c\<newline>x\<newline>x\<newline>x\<newline>x\<newline>\<newline>x\<newline>x\<newline>x\<newline>x''),
        (''proj/none.js'',
         ''x\<newline>x\<newline>x\<newline>x\<newline>x\<newline>\<newline>x\<newline>x\<newline>x\<newline>x'')]"

definition one_comment_metrics :: code_metrics where
  "one_comment_metrics =
     \<lparr>loc = 10, sloc = 9, comments = 1, complexity = 0, maintainability = Number 100,
      duplicates = [], issues = [], function_names = [], dependencies = {}\<rparr>"

definition no_comment_metrics :: code_metrics where
  "no_comment_metrics =
     \<lparr>loc = 10, sloc = 9, comments = 0, complexity = 0, maintainability = Number 100,
      duplicates = [], issues = [''Low comment ratio: 0.00%''], function_names = [],
      dependencies = {}\<rparr>"

definition lines_env :: "nat \<Rightarrow> env" where
  "lines_env n =
     text_env [FileNode ''big.go''] [(''proj/big.go'', concat (replicate n ''x\<newline>''))]"

definition long_file_metrics :: code_metrics where
  "long_file_metrics =
     \<lparr>loc = 501, sloc = 501, comments = 0, complexity = 0, maintainability = Number 100,
      duplicates = [],
      issues = [''File too long: 501 lines'', ''Low comment ratio: 0.00%''],
      function_names = [], dependencies = {}\<rparr>"

definition is_loc_issue :: "string \<Rightarrow> bool" where
  "is_loc_issue s =
     (starts_with ''File too long'' s \<or> starts_with ''Warning: File approaching'' s)"

text \<open>
  A tree with a file that can be listed but not opened: \<^verbatim>\<open>stat\<close> succeeds for every
  path, and every other call on \<open>proj/locked.py\<close> fails.
\<close>

definition locked_env :: env where
  "locked_env =
     (text_env [FileNode ''a.py'', FileNode ''locked.py''] [(''proj/a.py'', ''x = 1'')])
       \<lparr>fs_stat := (\<lambda>p. Some \<lparr>st_size = 5, st_ctime = 0, st_mtime = 0\<rparr>)\<rparr>"

text \<open>Two language entries of different sizes, and a group with an unreadable file.\<close>

definition two_languages :: "(string \<times> language_metrics) list" where
  "two_languages =
     [(''python'', \<lparr>lm_files = 3, lm_total_loc = 30, lm_avg_complexity = 2,
                     lm_avg_maintainability = 100, lm_duplicates = [], lm_issues = []\<rparr>),
      (''go'', \<lparr>lm_files = 1, lm_total_loc = 5, lm_avg_complexity = 4,
                 lm_avg_maintainability = 50, lm_duplicates = [], lm_issues = []\<rparr>)]"

definition group_env :: env where
  "group_env =
     text_env [FileNode ''a.js'', FileNode ''gone.js'', FileNode ''b.js'']
       [(''proj/a.js'', ''// a\<newline>f()''), (''proj/b.js'', ''// b\<newline>g()'')]"

definition group_files :: "file_metadata list" where
  "group_files = [text_file ''proj/a.js'', text_file ''proj/gone.js'', text_file ''proj/b.js'']"

definition small_js_metrics :: code_metrics where
  "small_js_metrics =
     \<lparr>loc = 2, sloc = 2, comments = 1, complexity = 0, maintainability = Number 100,
      duplicates = [], issues = [], function_names = [], dependencies = {}\<rparr>"

definition failed_count :: "'a option list \<Rightarrow> nat" where
  "failed_count rs = length (filter (\<lambda>r. r = None) rs)"

definition group_entry :: language_metrics where
  "group_entry =
     \<lparr>lm_files = 3, lm_total_loc = 4, lm_avg_complexity = 0, lm_avg_maintainability = 100,
      lm_duplicates = [], lm_issues = []\<rparr>"

definition group_cache :: code_cache where
  "group_cache = [''proj/a.js'' \<mapsto> small_js_metrics, ''proj/b.js'' \<mapsto> small_js_metrics]"

text \<open>
  A module and a script. The module parses, and \<open>h_visit\<close> returns its report, an
  object that is not a number.
\<close>

definition mixed_env :: env where
  "mixed_env =
     (text_env [FileNode ''a.py'', FileNode ''b.js'']
        [(''proj/a.py'', ''x = 1''), (''proj/b.js'', ''// c'')])
       \<lparr>radon_analyze := (\<lambda>content. Some \<lparr>raw_loc = 1, raw_sloc = 1, raw_comments = 0\<rparr>),
        cc_visit := (\<lambda>content. Some []),
        h_visit := (\<lambda>content. Some Object)\<rparr>"

definition module_metrics :: code_metrics where
  "module_metrics =
     \<lparr>loc = 1, sloc = 1, comments = 0, complexity = 0, maintainability = Object,
      duplicates = [], issues = [''Low comment ratio: 0.00%''], function_names = [],
      dependencies = {}\<rparr>"

definition script_metrics :: code_metrics where
  "script_metrics =
     \<lparr>loc = 1, sloc = 1, comments = 1, complexity = 0, maintainability = Number 100,
      duplicates = [], issues = [], function_names = [], dependencies = {}\<rparr>"

definition script_entry :: language_metrics where
  "script_entry =
     \<lparr>lm_files = 1, lm_total_loc = 1, lm_avg_complexity = 0, lm_avg_maintainability = 100,
      lm_duplicates = [], lm_issues = []\<rparr>"

definition module_cache :: code_cache where
  "module_cache = [''proj/a.py'' \<mapsto> module_metrics]"

definition mixed_cache :: code_cache where
  "mixed_cache = [''proj/a.py'' \<mapsto> module_metrics, ''proj/b.js'' \<mapsto> script_metrics]"

text \<open>
  A small tree with a script, a source file of a language without a strategy of its own
  in a subdirectory, and a hidden directory; and the result of its analysis.
\<close>

definition run_env :: env where
  "run_env =
     text_env
       [FileNode ''a.js'', DirNode ''.git'' [FileNode ''config''],
        DirNode ''src'' [FileNode ''b.go'']]
       [(''proj/a.js'', ''// c''), (''proj/src/b.go'', ''x'')]"

definition run_file_a :: file_metadata where
  "run_file_a =
     \<lparr>path = ''proj/a.js'', size_bytes = 4, created = 0, modified = 0,
      mime_type = ''text/plain'', encoding = ''ascii'', category = ''code/javascript'',
      is_binary = False, hash_hex = ''00''\<rparr>"

definition run_file_b :: file_metadata where
  "run_file_b =
     \<lparr>path = ''proj/src/b.go'', size_bytes = 1, created = 0, modified = 0,
      mime_type = ''text/plain'', encoding = ''ascii'', category = ''code/go'',
      is_binary = False, hash_hex = ''00''\<rparr>"

definition go_metrics :: code_metrics where
  "go_metrics =
     \<lparr>loc = 1, sloc = 1, comments = 0, complexity = 0, maintainability = Number 100,
      duplicates = [], issues = [''Low comment ratio: 0.00%''], function_names = [],
      dependencies = {}\<rparr>"

definition go_entry :: language_metrics where
  "go_entry =
     \<lparr>lm_files = 1, lm_total_loc = 1, lm_avg_complexity = 0, lm_avg_maintainability = 100,
      lm_duplicates = [], lm_issues = [''Low comment ratio: 0.00%'']\<rparr>"

definition run_categorized :: "(string \<times> category_info) list" where
  "run_categorized =
     [(''code/javascript'',
       \<lparr>count = 1, total_size = 4,
        files = [\<lparr>fe_path = ''proj/a.js'', fe_size = 4, fe_modified = 0,
                  fe_mime_type = ''text/plain''\<rparr>]\<rparr>),
      (''code/go'',
       \<lparr>count = 1, total_size = 1,
        files = [\<lparr>fe_path = ''proj/src/b.go'', fe_size = 1, fe_modified = 0,
                  fe_mime_type = ''text/plain''\<rparr>]\<rparr>)]"

definition run_metrics :: "(string \<times> language_metrics) list" where
  "run_metrics = [(''javascript'', script_entry), (''go'', go_entry)]"

definition run_result :: analysis_result where
  "run_result =
     \<lparr>summary = generate_project_summary run_categorized run_metrics,
      categorized = run_categorized, metrics = run_metrics,
      timestamp = ''2024-01-01T00:00:00''\<rparr>"

definition run_cache :: code_cache where
  "run_cache = [''proj/a.js'' \<mapsto> script_metrics, ''proj/src/b.go'' \<mapsto> go_metrics]"

text \<open>The pairs of positions that the two loops of the duplicate scan visit, in order.\<close>

definition index_pairs :: "nat \<Rightarrow> (nat \<times> nat) list" where
  "index_pairs n = concat (map (\<lambda>i. map (Pair i) [i + 1..<n]) [0..<n])"

text \<open>
  Three scripts, the first and the third with the same text; the vectorizer gives the
  texts \<open>aa\<close> and \<open>bb\<close> orthogonal rows.
\<close>

definition dup_env :: env where
  "dup_env =
     (text_env [FileNode ''x.js'', FileNode ''y.js'', FileNode ''z.js'']
        [(''proj/x.js'', ''aa''), (''proj/y.js'', ''bb''), (''proj/z.js'', ''aa'')])
       \<lparr>tfidf_fit := (\<lambda>docs. Some (\<lambda>doc. if doc = ''bb'' then [0, 1] else [1, 0]))\<rparr>"

definition dup_files :: "file_metadata list" where
  "dup_files = [text_file ''proj/x.js'', text_file ''proj/y.js'', text_file ''proj/z.js'']"

definition dup_matrix :: "real list list" where
  "dup_matrix = [[1, 0, 1], [0, 1, 0], [1, 0, 1]]"

section \<open>Properties of the classification\<close>

lemma code_language_in_table:
  "code_language tbl ext = Some lang \<Longrightarrow> lang \<in> fst ` set tbl"
  by (induction tbl ext rule: code_language.induct) (auto split: if_splits)

lemma first_match_code_rules:
  "first_match
     (map (\<lambda>(lang, extensions). (\<lambda>(ext, name). ext \<in> set extensions, ''code/'' @ lang)) tbl
        @ rules) (ext, name)
   = (case code_language tbl ext of
        Some lang \<Rightarrow> Some (''code/'' @ lang)
      | None \<Rightarrow> first_match rules (ext, name))"
  by (induction tbl ext rule: code_language.induct) (auto simp: first_match_def)

lemma categorize_file_fixed: "categorize_file p \<in> set fixed_categories"
  unfolding categorize_file_def fixed_categories_def Let_def
  by (auto split: option.splits dest!: code_language_in_table)

lemma categorize_file_nonempty: "categorize_file p \<noteq> []"
  unfolding categorize_file_def Let_def
  by (auto split: option.splits)

lemma categorize_file_first_match:
  "first_match classification_rules (lower (path_suffix p), lower (path_name p))
   = Some (categorize_file p)"
  unfolding classification_rules_def first_match_code_rules categorize_file_def Let_def
  by (simp add: first_match_def split: option.splits)

text \<open>
  C7. The category of a file is a function of its path alone, with no failing branch;
  it is never empty, it belongs to the fixed set (one \<open>code/<language>\<close> per language
  of the table, \<open>documentation\<close>, \<open>configuration\<close>, \<open>test\<close>, \<open>other\<close>), and it is the
  category of the first rule, in the priority order code, documentation,
  configuration, test, other, that the lower-cased suffix and name match.
\<close>

theorem categorize_file_total_priority:
  "categorize_file p \<noteq> []
   \<and> categorize_file p \<in> set fixed_categories
   \<and> first_match classification_rules (lower (path_suffix p), lower (path_name p))
       = Some (categorize_file p)"
  using categorize_file_nonempty categorize_file_fixed categorize_file_first_match
  by blast

theorem categorize_file_total_priority_witness:
  "categorize_file ''proj/tests/test_utils.py'' = ''code/python''
   \<and> categorize_file ''proj/tests/test_utils.py'' \<in> set fixed_categories
   \<and> first_match classification_rules (''.py'', ''test_utils.py'') = Some ''code/python''"
proof -
  have cat: "categorize_file ''proj/tests/test_utils.py'' = ''code/python''"
    by code_simp
  have ext: "lower (path_suffix ''proj/tests/test_utils.py'') = ''.py''"
    by code_simp
  have name: "lower (path_name ''proj/tests/test_utils.py'') = ''test_utils.py''"
    by code_simp
  show ?thesis
    using categorize_file_total_priority [of "''proj/tests/test_utils.py''"]
    unfolding cat ext name by simp
qed

section \<open>Properties of the floats\<close>

lemma ilog2_bounds:
  "1 \<le> a \<Longrightarrow> 0 \<le> ilog2 a \<and> 2 ^ nat (ilog2 a) \<le> a \<and> a < 2 * 2 ^ nat (ilog2 a)"
proof (induction a rule: ilog2.induct)
  case (1 a)
  show ?case
  proof (cases "a \<le> 1")
    case True
    with "1.prems" have "a = 1" by simp
    then show ?thesis by (simp add: ilog2.simps)
  next
    case False
    then have h: "1 \<le> a div 2" by simp
    from "1.IH" [OF False h] have ih: "0 \<le> ilog2 (a div 2)"
      "2 ^ nat (ilog2 (a div 2)) \<le> a div 2" "a div 2 < 2 * 2 ^ nat (ilog2 (a div 2))"
      by simp_all
    have eq: "ilog2 a = 1 + ilog2 (a div 2)" using False by (simp add: ilog2.simps)
    have n: "nat (ilog2 a) = Suc (nat (ilog2 (a div 2)))" using eq ih(1) by simp
    have step: "2 * p \<le> a \<and> a < 2 * (2 * p)" if "p \<le> a div 2" "a div 2 < 2 * p" for p :: int
      using that by arith
    show ?thesis unfolding n using step [OF ih(2,3)] ih(1) eq by simp
  qed
qed

lemma round_half_even_ge: "of_int k \<le> y \<Longrightarrow> k \<le> round_half_even y"
proof -
  assume "of_int k \<le> y"
  then have "k \<le> \<lfloor>y\<rfloor>" by (simp add: le_floor_iff)
  then show ?thesis by (simp add: round_half_even_def Let_def)
qed

lemma round_half_even_le: "y \<le> of_int k \<Longrightarrow> round_half_even y \<le> k"
proof -
  assume a: "y \<le> of_int k"
  show ?thesis
  proof (cases "y = of_int k")
    case True
    then show ?thesis by (simp add: round_half_even_def Let_def)
  next
    case False
    with a have "y < of_int k" by simp
    then have "\<lfloor>y\<rfloor> < k" by (simp add: floor_less_iff)
    then show ?thesis by (simp add: round_half_even_def Let_def)
  qed
qed

lemma round_half_even_up: "of_int k - 1 / 2 < y \<Longrightarrow> k \<le> round_half_even y"
proof -
  assume a: "of_int k - 1 / 2 < y"
  show ?thesis
  proof (cases "of_int k \<le> y")
    case True
    then show ?thesis by (rule round_half_even_ge)
  next
    case False
    then have "y < of_int k" by simp
    moreover have "of_int (k - 1) \<le> y" using a by simp
    ultimately have f: "\<lfloor>y\<rfloor> = k - 1" by (simp add: floor_unique)
    have "1 / 2 < y - of_int \<lfloor>y\<rfloor>" using a f by simp
    then show ?thesis using f by (simp add: round_half_even_def Let_def)
  qed
qed


lemma floor_log2_bounds:
  assumes "0 < q"
  shows "2 powi floor_log2 q \<le> q \<and> q < 2 powi (floor_log2 q + 1)"
proof -
  obtain a b where ab: "quotient_of q = (a, b)" by (cases "quotient_of q")
  have b: "0 < b" using quotient_of_denom_pos [OF ab] .
  have q: "q = of_int a / of_int b" using quotient_of_div [OF ab] .
  have a: "1 \<le> a"
  proof -
    have "0 < (of_int a :: rat)" using assms b unfolding q by (simp add: zero_less_divide_iff)
    then show ?thesis by simp
  qed
  define A :: rat where "A = 2 powi ilog2 a"
  define B :: rat where "B = 2 powi ilog2 b"
  from ilog2_bounds [OF a] have la: "0 \<le> ilog2 a"
    and ia: "2 ^ nat (ilog2 a) \<le> a" "a < 2 * 2 ^ nat (ilog2 a)" by simp_all
  from b have "1 \<le> b" by simp
  from ilog2_bounds [OF this] have lb: "0 \<le> ilog2 b"
    and ib: "2 ^ nat (ilog2 b) \<le> b" "b < 2 * 2 ^ nat (ilog2 b)" by simp_all
  have Apow: "A = 2 ^ nat (ilog2 a)" unfolding A_def using la by (simp add: power_int_def)
  have Bpow: "B = 2 ^ nat (ilog2 b)" unfolding B_def using lb by (simp add: power_int_def)
  have A: "A \<le> of_int a" "of_int a < 2 * A"
  proof -
    have "(of_int (2 ^ nat (ilog2 a)) :: rat) \<le> of_int a" using ia(1) by (simp only: of_int_le_iff)
    then show "A \<le> of_int a" by (simp add: Apow)
    have "(of_int a :: rat) < of_int (2 * 2 ^ nat (ilog2 a))" using ia(2) by (simp only: of_int_less_iff)
    then show "of_int a < 2 * A" by (simp add: Apow)
  qed
  have B: "B \<le> of_int b" "of_int b < 2 * B"
  proof -
    have "(of_int (2 ^ nat (ilog2 b)) :: rat) \<le> of_int b" using ib(1) by (simp only: of_int_le_iff)
    then show "B \<le> of_int b" by (simp add: Bpow)
    have "(of_int b :: rat) < of_int (2 * 2 ^ nat (ilog2 b))" using ib(2) by (simp only: of_int_less_iff)
    then show "of_int b < 2 * B" by (simp add: Bpow)
  qed
  have Apos: "0 < A" and Bpos: "0 < B" by (simp_all add: A_def B_def)
  have bpos: "0 < (of_int b :: rat)" using b by simp
  let ?d = "ilog2 a - ilog2 b"
  have d: "(2::rat) powi ?d = A / B" by (simp add: power_int_diff A_def B_def)
  have d1: "(2::rat) powi (?d + 1) = 2 * A / B"
    using power_int_add [of "2::rat" ?d 1] d by simp
  have dm: "(2::rat) powi (?d - 1) = A / (2 * B)"
    using power_int_diff [of "2::rat" ?d 1] d by simp
  have upper: "q < 2 * A / B"
  proof -
    have "of_int a / of_int b \<le> of_int a / B"
      using B(1) Bpos a by (simp add: frac_le)
    also have "\<dots> < 2 * A / B" using A(2) Bpos by (simp add: divide_strict_right_mono)
    finally show ?thesis unfolding q .
  qed
  have lower: "A / (2 * B) < q"
  proof -
    have "A / (2 * B) < A / of_int b"
      using B(2) bpos Apos by (simp add: frac_less2)
    also have "\<dots> \<le> of_int a / of_int b" using A(1) bpos by (simp add: divide_right_mono)
    finally show ?thesis unfolding q .
  qed
  show ?thesis
  proof (cases "2 powi ?d \<le> q")
    case True
    then have "floor_log2 q = ?d" by (simp add: floor_log2_def ab)
    then show ?thesis using True upper d1 by simp
  next
    case False
    then have e: "floor_log2 q = ?d - 1" by (simp add: floor_log2_def ab)
    have "2 powi (?d - 1) \<le> q" using lower dm by simp
    moreover have "q < 2 powi (?d - 1 + 1)" using False by simp
    ultimately show ?thesis unfolding e by blast
  qed
qed


lemma round_to_double_pos:
  assumes "0 < x"
  shows "round_to_double x
         = of_int (round_half_even (x / 2 powi (floor_log2 x - 52))) * 2 powi (floor_log2 x - 52)"
  using assms by (simp add: round_to_double_def Let_def)

lemma exponent_less:
  assumes "(2::rat) powi a \<le> x" and "x < 2 powi b"
  shows "a < b"
proof (rule ccontr)
  assume "\<not> a < b"
  then have "b \<le> a" by simp
  then have "(2::rat) powi b \<le> 2 powi a" by (simp add: power_int_increasing)
  with assms show False by simp
qed

lemma round_to_double_range:
  assumes "0 < x"
  shows "2 powi floor_log2 x \<le> round_to_double x"
    and "round_to_double x \<le> 2 powi (floor_log2 x + 1)"
proof -
  let ?e = "floor_log2 x"
  let ?ulp = "(2::rat) powi (?e - 52)"
  have ulp: "0 < ?ulp" by simp
  have lo: "2 powi ?e = 2 ^ 52 * ?ulp"
    using power_int_add [of "2::rat" 52 "?e - 52"] by simp
  have hi: "2 powi (?e + 1) = 2 ^ 53 * ?ulp"
    using power_int_add [of "2::rat" 53 "?e - 52"] by (simp add: add.commute)
  from floor_log2_bounds [OF assms] have "2 ^ 52 * ?ulp \<le> x" "x < 2 ^ 53 * ?ulp"
    unfolding lo hi by simp_all
  then have y: "of_int (2 ^ 52) \<le> x / ?ulp" "x / ?ulp \<le> of_int (2 ^ 53)"
    using ulp by (simp_all add: pos_le_divide_eq pos_divide_le_eq)
  have m: "2 ^ 52 \<le> round_half_even (x / ?ulp)" "round_half_even (x / ?ulp) \<le> 2 ^ 53"
    using round_half_even_ge [OF y(1)] round_half_even_le [OF y(2)] by simp_all
  have "(of_int (2 ^ 52) :: rat) \<le> of_int (round_half_even (x / ?ulp))"
    using m(1) by (simp only: of_int_le_iff)
  then have "2 ^ 52 * ?ulp \<le> of_int (round_half_even (x / ?ulp)) * ?ulp"
    using ulp by simp
  then show "2 powi ?e \<le> round_to_double x"
    unfolding round_to_double_pos [OF assms] lo .
  have "(of_int (round_half_even (x / ?ulp)) :: rat) \<le> of_int (2 ^ 53)"
    using m(2) by (simp only: of_int_le_iff)
  then have "of_int (round_half_even (x / ?ulp)) * ?ulp \<le> 2 ^ 53 * ?ulp"
    using ulp by simp
  then show "round_to_double x \<le> 2 powi (?e + 1)"
    unfolding round_to_double_pos [OF assms] hi .
qed

lemma round_to_double_tenth:
  "round_to_double (1 / 10) = 3602879701896397 / 36028797018963968"
  by code_simp

lemma below_tenth_rounds_below:
  assumes "0 < x" and "x \<le> 7205759403792793 / 72057594037927936"
  shows "round_to_double x \<le> 7205759403792793 / 72057594037927936"
proof -
  let ?e = "floor_log2 x"
  have "x < 2 powi (-3)" using assms(2) by simp
  with floor_log2_bounds [OF assms(1)] have "?e < -3" using exponent_less by blast
  then consider "?e = -4" | "?e \<le> -5" by linarith
  then show ?thesis
  proof cases
    case 1
    have "x * 72057594037927936 \<le> of_int 7205759403792793" using assms(2) by simp
    then have "round_half_even (x * 72057594037927936) \<le> 7205759403792793"
      by (rule round_half_even_le)
    then have "(of_int (round_half_even (x * 72057594037927936)) :: rat)
               \<le> of_int 7205759403792793" by (simp only: of_int_le_iff)
    then show ?thesis unfolding round_to_double_pos [OF assms(1)] 1 by simp
  next
    case 2
    then have "(2::rat) powi (?e + 1) \<le> 2 powi (-4)"
      by (intro power_int_increasing) auto
    with round_to_double_range(2) [OF assms(1)] have "round_to_double x \<le> 2 powi (-4)"
      by (rule order_trans)
    moreover have "(2::rat) powi (-4) = 1 / 16" by simp
    ultimately show ?thesis by simp
  qed
qed

lemma tenth_rounds_up:
  assumes "1 / 10 \<le> x"
  shows "3602879701896397 / 36028797018963968 \<le> round_to_double x"
proof -
  have pos: "0 < x" using assms by simp
  let ?e = "floor_log2 x"
  have "(2::rat) powi (-4) \<le> x" using assms by simp
  with floor_log2_bounds [OF pos] have "-4 < ?e + 1" using exponent_less by blast
  then consider "?e = -4" | "-3 \<le> ?e" by linarith
  then show ?thesis
  proof cases
    case 1
    have "of_int 7205759403792794 - 1 / 2 < x * 72057594037927936" using assms by simp
    then have "7205759403792794 \<le> round_half_even (x * 72057594037927936)"
      by (rule round_half_even_up)
    then have "(of_int 7205759403792794 :: rat)
               \<le> of_int (round_half_even (x * 72057594037927936))"
      by (simp only: of_int_le_iff)
    then show ?thesis unfolding round_to_double_pos [OF pos] 1 by simp
  next
    case 2
    then have "(2::rat) powi (-3) \<le> 2 powi ?e"
      by (intro power_int_increasing) auto
    from this round_to_double_range(1) [OF pos] have "2 powi (-3) \<le> round_to_double x"
      by (rule order_trans)
    moreover have "(2::rat) powi (-3) = 1 / 8" by simp
    ultimately show ?thesis by simp
  qed
qed

lemma ratio_below_min_iff:
  assumes "0 < s" and "s < 10 ^ 16"
  shows "comment_ratio c s < COMMENT_RATIO_MIN \<longleftrightarrow> (of_nat c / of_nat s :: rat) < 1 / 10"
proof -
  let ?x = "of_nat c / of_nat s :: rat"
  have cr: "comment_ratio c s = round_to_double ?x" using assms(1) by (simp add: comment_ratio_def)
  have spos: "0 < (of_nat s :: rat)" using assms(1) by simp
  show ?thesis
  proof
    assume "comment_ratio c s < COMMENT_RATIO_MIN"
    then have lt: "round_to_double ?x < 3602879701896397 / 36028797018963968"
      by (simp add: cr COMMENT_RATIO_MIN_def round_to_double_tenth)
    show "?x < 1 / 10"
    proof (rule ccontr)
      assume "\<not> ?x < 1 / 10"
      then have "1 / 10 \<le> ?x" by simp
      from tenth_rounds_up [OF this] lt show False by simp
    qed
  next
    assume below: "?x < 1 / 10"
    show "comment_ratio c s < COMMENT_RATIO_MIN"
    proof (cases "c = 0")
      case True
      then have "round_to_double ?x = 0" by (simp add: round_to_double_def)
      then show ?thesis
        unfolding cr COMMENT_RATIO_MIN_def round_to_double_tenth by simp
    next
      case False
      then have xpos: "0 < ?x" using spos by simp
      from below spos have "of_nat c * 10 < (of_nat s :: rat)"
        by (simp add: pos_divide_less_eq)
      then have "of_nat (c * 10) < (of_nat s :: rat)" by simp
      then have "c * 10 < s" by (simp only: of_nat_less_iff)
      moreover have "s < 10000000000000000" using assms(2) by simp
      ultimately have "c * 72057594037927936 \<le> 7205759403792793 * s" by linarith
      then have "(of_nat (c * 72057594037927936) :: rat) \<le> of_nat (7205759403792793 * s)"
        by (simp only: of_nat_le_iff)
      then have "?x \<le> 7205759403792793 / 72057594037927936"
        using spos by (simp add: pos_divide_le_eq)
      from below_tenth_rounds_below [OF xpos this] show ?thesis
        by (simp add: cr COMMENT_RATIO_MIN_def round_to_double_tenth)
    qed
  qed
qed

section \<open>Properties of the per-file metrics\<close>

subsection \<open>The cache holds computed metrics only\<close>

lemma cache_sound_empty: "cache_sound E Map.empty"
  by (simp add: cache_sound_def)

lemma get_code_metrics_sound:
  assumes "cache_sound E cache" and "get_code_metrics E cache fm = (r, cache')"
  shows "cache_sound E cache'"
    and "r = Some m \<Longrightarrow> \<exists>fm'. path fm' = path fm \<and> compute_metrics E fm' = Some m"
proof -
  show "cache_sound E cache'"
  proof (cases "cache (path fm)")
    case (Some m0)
    then show ?thesis using assms by (simp add: get_code_metrics_def)
  next
    case None
    show ?thesis
    proof (cases "compute_metrics E fm")
      case None
      then show ?thesis using assms \<open>cache (path fm) = None\<close>
        by (simp add: get_code_metrics_def)
    next
      case (Some m1)
      then have "cache' = cache(path fm \<mapsto> m1)"
        using assms \<open>cache (path fm) = None\<close> by (auto simp: get_code_metrics_def)
      then show ?thesis using assms(1) Some
        unfolding cache_sound_def by (metis fun_upd_apply option.inject)
    qed
  qed
  show "r = Some m \<Longrightarrow> \<exists>fm'. path fm' = path fm \<and> compute_metrics E fm' = Some m"
    using assms
    by (auto simp: get_code_metrics_def cache_sound_def split: option.splits)
qed

lemma map_get_code_metrics_sound:
  assumes "cache_sound E cache" and "map_get_code_metrics E cache fms = (rs, cache')"
  shows "cache_sound E cache' \<and> length rs = length fms
         \<and> (\<forall>m. Some m \<in> set rs \<longrightarrow> (\<exists>fm'. compute_metrics E fm' = Some m))"
  using assms
proof (induction fms arbitrary: cache rs cache')
  case Nil
  then show ?case by simp
next
  case (Cons fm fms)
  obtain r c1 where g: "get_code_metrics E cache fm = (r, c1)" by fastforce
  obtain rs1 c2 where m: "map_get_code_metrics E c1 fms = (rs1, c2)" by fastforce
  from Cons.prems(2) g m have eq: "rs = r # rs1" "cache' = c2" by auto
  have s1: "cache_sound E c1" using get_code_metrics_sound(1) [OF Cons.prems(1) g] .
  have hd: "r = Some m \<Longrightarrow> \<exists>fm'. compute_metrics E fm' = Some m" for m
    using get_code_metrics_sound(2) [OF Cons.prems(1) g] by blast
  from Cons.IH [OF s1 m] hd show ?case unfolding eq by auto
qed

lemma compute_metrics_shape:
  assumes "compute_metrics E fm = Some m"
  shows "duplicates m = []"
    and "issues m = loc_issues (sloc m) @ ratio_issues (comments m) (sloc m)"
  using assms
  by (auto simp: compute_metrics_def build_metrics_def Let_def
           split: option.splits strategy.splits prod.splits)

lemma analyze_group_sound:
  assumes "cache_sound E cache" and "analyze_group E cache fms = (r, cache')"
  shows "cache_sound E cache'"
proof -
  obtain rs c1 where m: "map_get_code_metrics E cache fms = (rs, c1)" by fastforce
  with assms(2) have "cache' = c1" by (simp add: analyze_group_def)
  then show ?thesis using map_get_code_metrics_sound [OF assms(1) m] by simp
qed

lemma analyze_groups_sound:
  assumes "cache_sound E cache" and "analyze_groups E cache groups = (ms, failed, cache')"
  shows "cache_sound E cache'"
  using assms
proof (induction groups arbitrary: cache ms failed cache')
  case Nil
  then show ?case by simp
next
  case (Cons g groups)
  obtain lang fms where g: "g = (lang, fms)" by (cases g)
  obtain r c1 where a: "analyze_group E cache fms = (r, c1)" by fastforce
  obtain ms1 f1 c2 where b: "analyze_groups E c1 groups = (ms1, f1, c2)"
    by (metis prod_cases3)
  from Cons.prems(2) g a b have "cache' = c2" by (auto split: sum.splits)
  moreover have "cache_sound E c1" using analyze_group_sound [OF Cons.prems(1) a] .
  ultimately show ?case using Cons.IH b by blast
qed

lemma analyze_project_sound:
  assumes "cache_sound E cache" and "analyze_project E cache = Inr (res, failed, cache')"
  shows "cache_sound E cache'"
proof -
  from assms(2) obtain groups ms where
    "analyze_groups E cache groups = (ms, failed, cache')"
    by (auto simp: analyze_project_def analyze_code_files_def Let_def
             split: sum.splits prod.splits)
  then show ?thesis using analyze_groups_sound [OF assms(1)] by blast
qed

lemma path_text_file: "path (text_file p) = p"
  by (simp add: text_file_def)

lemma html_compute: "compute_metrics html_env (text_file ''proj/page.html'') = Some html_metrics"
  by code_simp

lemma html_get:
  "get_code_metrics html_env Map.empty (text_file ''proj/page.html'')
   = (Some html_metrics, [''proj/page.html'' \<mapsto> html_metrics])"
  by (simp add: get_code_metrics_def html_compute path_text_file)

text \<open>
  C10. In a run whose cache holds computed metrics only (the empty cache of a fresh
  analyzer does), every \<open>code_metrics\<close> record has an empty \<open>duplicates\<close> list: the one
  a call of \<open>get_code_metrics\<close> returns, those a batch returns, and those the cache
  holds when the run is over. The duplicate pairs are a field of the language entry.
\<close>

theorem per_file_duplicates_empty:
  assumes "cache_sound E cache"
  shows "(get_code_metrics E cache fm = (Some m, c1) \<longrightarrow> duplicates m = [])
    \<and> (map_get_code_metrics E cache fms = (rs, c2) \<longrightarrow> (\<forall>m'. Some m' \<in> set rs \<longrightarrow> duplicates m' = []))
    \<and> (analyze_project E cache = Inr (res, failed, cache')
         \<longrightarrow> (\<forall>p m'. cache' p = Some m' \<longrightarrow> duplicates m' = []))"
proof (intro conjI impI allI)
  assume "get_code_metrics E cache fm = (Some m, c1)"
  from get_code_metrics_sound(2) [OF assms this] show "duplicates m = []"
    using compute_metrics_shape(1) by blast
next
  fix m' assume "map_get_code_metrics E cache fms = (rs, c2)" and "Some m' \<in> set rs"
  with map_get_code_metrics_sound [OF assms] show "duplicates m' = []"
    using compute_metrics_shape(1) by blast
next
  fix p m' assume "analyze_project E cache = Inr (res, failed, cache')" and "cache' p = Some m'"
  with analyze_project_sound [OF assms] show "duplicates m' = []"
    using compute_metrics_shape(1) unfolding cache_sound_def by blast
qed

theorem per_file_duplicates_empty_witness:
  "cache_sound html_env Map.empty
   \<and> get_code_metrics html_env Map.empty (text_file ''proj/page.html'')
       = (Some html_metrics, [''proj/page.html'' \<mapsto> html_metrics])
   \<and> duplicates html_metrics = []"
  using per_file_duplicates_empty [OF cache_sound_empty, of html_env
          "text_file ''proj/page.html''" html_metrics "[''proj/page.html'' \<mapsto> html_metrics]"]
        html_get cache_sound_empty
  by simp

subsection \<open>Counters and issues\<close>

lemma one_compute: "compute_metrics ratio_env (text_file ''proj/one.js'') = Some one_comment_metrics"
  by code_simp

lemma none_compute: "compute_metrics ratio_env (text_file ''proj/none.js'') = Some no_comment_metrics"
  by code_simp


lemma js_comments_bound: "js_comments im n ls \<le> n + length ls"
proof (induction ls arbitrary: im n)
  case Nil
  then show ?case by simp
next
  case (Cons l ls)
  have more: "js_comments b (n + 1) ls \<le> n + length (l # ls)" for b
    using Cons.IH [of b "n + 1"] by simp
  have same: "js_comments b n ls \<le> n + length (l # ls)" for b
    using Cons.IH [of b n] by simp
  show ?case
    using more [of True] more [of False] more [of im] same [of im]
    by (cases im) (simp_all add: Let_def)
qed

lemma compute_metrics_counts:
  assumes "compute_metrics E fm = Some m" and "raw_counts_ok E"
  shows "sloc m \<le> loc m"
    and "strategy_of (lower (path_suffix (path fm))) \<notin> {Html, Css} \<Longrightarrow> comments m \<le> loc m"
  using assms js_comments_bound [of False 0]
  by (auto simp: compute_metrics_def build_metrics_def Let_def raw_counts_ok_def
           split: option.splits strategy.splits prod.splits)


lemma get_code_metrics_computed:
  assumes "cache_sound E cache" and "get_code_metrics E cache fm = (Some m, cache')"
  shows "\<exists>fm'. path fm' = path fm \<and> compute_metrics E fm' = Some m"
  using get_code_metrics_sound(2) [OF assms] by simp

lemma get_code_metrics_issues:
  assumes "cache_sound E cache" and "get_code_metrics E cache fm = (Some m, cache')"
  shows "issues m = loc_issues (sloc m) @ ratio_issues (comments m) (sloc m)"
  using get_code_metrics_computed [OF assms] compute_metrics_shape(2) by blast

lemma loc_issues_scenario:
  "loc_issues 501 = [''File too long: 501 lines'']"
  "loc_issues 301 = [''Warning: File approaching maximum length: 301 lines'']"
  "loc_issues 299 = []"
  by code_simp+

lemma ratio_issues_scenario:
  "comment_ratio 1 9 = 2001599834386887 / 18014398509481984" "ratio_issues 1 9 = []"
  "comment_ratio 0 9 = 0" "ratio_issues 0 9 = [''Low comment ratio: 0.00%'']"
  by code_simp+

lemma filter_loc_issues:
  "filter is_loc_issue (loc_issues n @ ratio_issues c n) = loc_issues n"
  by (simp add: loc_issues_def ratio_issues_def is_loc_issue_def starts_with_def)

lemma filter_ratio_issues:
  "filter (starts_with ''Low comment ratio'') (loc_issues n @ ratio_issues c n) = ratio_issues c n"
  by (simp add: loc_issues_def ratio_issues_def starts_with_def)

lemma too_long_member:
  "''File too long: '' @ show_nat n @ '' lines'' \<in> set (loc_issues n @ ratio_issues c n)
   \<longleftrightarrow> LOC_MAX < n"
  by (simp add: loc_issues_def ratio_issues_def)

lemma warning_member:
  "''Warning: File approaching maximum length: '' @ show_nat n @ '' lines''
     \<in> set (loc_issues n @ ratio_issues c n)
   \<longleftrightarrow> LOC_WARNING < n \<and> n \<le> LOC_MAX"
  by (auto simp: loc_issues_def ratio_issues_def LOC_MAX_def LOC_WARNING_def)

lemma low_ratio_member:
  "''Low comment ratio: '' @ format_percent2 (comment_ratio c n)
     \<in> set (loc_issues n @ ratio_issues c n)
   \<longleftrightarrow> comment_ratio c n < COMMENT_RATIO_MIN"
  by (simp add: loc_issues_def ratio_issues_def)

text \<open>
  C8. For the metrics of every code file, the issue \<open>File too long: n lines\<close> is present
  exactly when the non-blank count \<open>n\<close> exceeds 500, the warning exactly when it
  exceeds 300 but not 500; the line-count issues of the file are those of \<open>loc_issues\<close>,
  at most one. At 501 the issue reads \<open>File too long: 501 lines\<close>, at 301 only the
  warning is given, at 299 neither.
\<close>

theorem line_count_issues:
  assumes "cache_sound E cache" and "get_code_metrics E cache fm = (Some m, cache')"
  shows "(''File too long: '' @ show_nat (sloc m) @ '' lines'' \<in> set (issues m)
            \<longleftrightarrow> 500 < sloc m)
    \<and> (''Warning: File approaching maximum length: '' @ show_nat (sloc m) @ '' lines''
            \<in> set (issues m) \<longleftrightarrow> 300 < sloc m \<and> sloc m \<le> 500)
    \<and> filter is_loc_issue (issues m) = loc_issues (sloc m)
    \<and> length (loc_issues (sloc m)) \<le> 1
    \<and> loc_issues 501 = [''File too long: 501 lines'']
    \<and> loc_issues 301 = [''Warning: File approaching maximum length: 301 lines'']
    \<and> loc_issues 299 = []"
  unfolding get_code_metrics_issues [OF assms] too_long_member warning_member
    filter_loc_issues loc_issues_scenario
  by (simp add: LOC_MAX_def LOC_WARNING_def loc_issues_def)

text \<open>
  C3, amended. For every file for which metrics are produced, provided the line counter
  of the Python strategy reports counts with \<open>sloc \<le> loc\<close> and \<open>comments \<le> loc\<close>: the
  non-blank count is at most the total line count, and under every strategy but the
  markup and stylesheet ones the comment count is at most the total line count. (Those
  two count comment spans, of which a line may hold several.)
\<close>

theorem line_counts_bounded:
  assumes "cache_sound E cache" and "raw_counts_ok E"
    and "get_code_metrics E cache fm = (Some m, cache')"
  shows "sloc m \<le> loc m
    \<and> (strategy_of (lower (path_suffix (path fm))) \<notin> {Html, Css} \<longrightarrow> comments m \<le> loc m)"
proof -
  from get_code_metrics_computed [OF assms(1,3)] obtain fm' where
    fm': "path fm' = path fm" "compute_metrics E fm' = Some m" by blast
  show ?thesis
    using compute_metrics_counts [OF fm'(2) assms(2)] fm'(1) by simp
qed


lemma splitlines_from_line:
  "splitlines_from [] (''x\<newline>'' @ rest) = ''x'' # splitlines_from [] rest"
  by (simp add: is_linebreak_def)

lemma splitlines_lines: "splitlines (concat (replicate n ''x\<newline>'')) = replicate n ''x''"
  unfolding splitlines_def
  by (induction n) (simp_all add: splitlines_from_line del: append.simps)

lemma strip_x: "strip ''x'' \<noteq> []"
  by code_simp

lemma big_go_strategy: "strategy_of (lower (path_suffix ''proj/big.go'')) = Generic"
  by code_simp

lemma lines_compute:
  "compute_metrics (lines_env n) (text_file ''proj/big.go'')
   = Some (build_metrics n n 0 0 (Number 100) [] {})"
  by (simp add: compute_metrics_def lines_env_def text_env_def null_env_def text_file_def
        splitlines_lines strip_x big_go_strategy)

lemma long_issues: "loc_issues 501 @ ratio_issues 0 501
    = [''File too long: 501 lines'', ''Low comment ratio: 0.00%'']"
  by code_simp

lemma long_get:
  "get_code_metrics (lines_env 501) Map.empty (text_file ''proj/big.go'')
   = (Some long_file_metrics, [''proj/big.go'' \<mapsto> long_file_metrics])"
  by (simp add: get_code_metrics_def lines_compute path_text_file build_metrics_def
        long_issues long_file_metrics_def)

theorem line_count_issues_witness:
  "cache_sound (lines_env 501) Map.empty
   \<and> get_code_metrics (lines_env 501) Map.empty (text_file ''proj/big.go'')
       = (Some long_file_metrics, [''proj/big.go'' \<mapsto> long_file_metrics])
   \<and> sloc long_file_metrics = 501
   \<and> ''File too long: 501 lines'' \<in> set (issues long_file_metrics)
   \<and> filter is_loc_issue (issues long_file_metrics) = [''File too long: 501 lines'']"
  using line_count_issues [OF cache_sound_empty long_get] long_get cache_sound_empty [of "lines_env 501"]
  by (simp add: long_file_metrics_def)

lemma one_get:
  "get_code_metrics ratio_env Map.empty (text_file ''proj/one.js'')
   = (Some one_comment_metrics, [''proj/one.js'' \<mapsto> one_comment_metrics])"
  by (simp add: get_code_metrics_def one_compute path_text_file)

lemma none_get:
  "get_code_metrics ratio_env Map.empty (text_file ''proj/none.js'')
   = (Some no_comment_metrics, [''proj/none.js'' \<mapsto> no_comment_metrics])"
  by (simp add: get_code_metrics_def none_compute path_text_file)

lemma one_comment_fields:
  "loc one_comment_metrics = 10" "sloc one_comment_metrics = 9"
  "comments one_comment_metrics = 1" "issues one_comment_metrics = []"
  by (simp_all add: one_comment_metrics_def)

lemma no_comment_fields:
  "loc no_comment_metrics = 10" "sloc no_comment_metrics = 9"
  "comments no_comment_metrics = 0"
  "issues no_comment_metrics = [''Low comment ratio: 0.00%'']"
  by (simp_all add: no_comment_metrics_def)

lemma ratio_ninth_close: "\<bar>comment_ratio 1 9 - 1 / 9\<bar> < 1 / 10 ^ 17"
  unfolding ratio_issues_scenario by simp

lemma low_ratio_exact:
  assumes "n < 10 ^ 16"
  shows "comment_ratio c n < COMMENT_RATIO_MIN
         \<longleftrightarrow> (if n = 0 then 0 else of_nat c / of_nat n :: rat) < 1 / 10"
proof (cases "n = 0")
  case True
  then show ?thesis
    by (simp add: comment_ratio_def COMMENT_RATIO_MIN_def round_to_double_tenth)
next
  case False
  then show ?thesis using ratio_below_min_iff [of n c] assms by simp
qed

text \<open>
  C2. For the metrics of every code file, the comment ratio is the comment count divided
  by the non-blank count, as a float, and 0 when that count is 0; the issue
  \<open>Low comment ratio\<close>, which prints the ratio as a percentage, is present exactly when
  the ratio is below the float 0.1, and that is, for fewer than \<open>10\<^sup>1\<^sup>6\<close> lines, exactly
  when the quotient of the two counts is below 1/10. The script of ten lines, nine of
  them not blank, with one comment line has the ratio 1/9 (to seventeen decimals) and
  no issue; the same script with no comment has the ratio 0 and the issue
  \<open>Low comment ratio: 0.00%\<close>.
\<close>

theorem comment_ratio_issue:
  assumes "cache_sound E cache" and "get_code_metrics E cache fm = (Some m, cache')"
  shows "comment_ratio (comments m) (sloc m)
           = (if sloc m = 0 then 0
              else round_to_double (of_nat (comments m) / of_nat (sloc m)))
    \<and> (''Low comment ratio: '' @ format_percent2 (comment_ratio (comments m) (sloc m))
            \<in> set (issues m)
         \<longleftrightarrow> comment_ratio (comments m) (sloc m) < round_to_double (1 / 10))
    \<and> filter (starts_with ''Low comment ratio'') (issues m)
         = ratio_issues (comments m) (sloc m)
    \<and> (sloc m < 10 ^ 16 \<longrightarrow>
         (''Low comment ratio: '' @ format_percent2 (comment_ratio (comments m) (sloc m))
            \<in> set (issues m)
          \<longleftrightarrow> (if sloc m = 0 then 0 else of_nat (comments m) / of_nat (sloc m) :: rat)
                < 1 / 10))
    \<and> get_code_metrics ratio_env Map.empty (text_file ''proj/one.js'')
         = (Some one_comment_metrics, [''proj/one.js'' \<mapsto> one_comment_metrics])
    \<and> loc one_comment_metrics = 10 \<and> sloc one_comment_metrics = 9
    \<and> comments one_comment_metrics = 1 \<and> issues one_comment_metrics = []
    \<and> comment_ratio 1 9 = 2001599834386887 / 18014398509481984
    \<and> \<bar>comment_ratio 1 9 - 1 / 9\<bar> < 1 / 10 ^ 17
    \<and> get_code_metrics ratio_env Map.empty (text_file ''proj/none.js'')
         = (Some no_comment_metrics, [''proj/none.js'' \<mapsto> no_comment_metrics])
    \<and> loc no_comment_metrics = 10 \<and> sloc no_comment_metrics = 9
    \<and> comments no_comment_metrics = 0 \<and> comment_ratio 0 9 = 0
    \<and> issues no_comment_metrics = [''Low comment ratio: 0.00%'']"
proof -
  note shape = get_code_metrics_issues [OF assms]
  have r: "comment_ratio (comments m) (sloc m)
           = (if sloc m = 0 then 0
              else round_to_double (of_nat (comments m) / of_nat (sloc m)))"
    by (simp add: comment_ratio_def)
  have member: "''Low comment ratio: '' @ format_percent2 (comment_ratio (comments m) (sloc m))
            \<in> set (issues m)
         \<longleftrightarrow> comment_ratio (comments m) (sloc m) < round_to_double (1 / 10)"
    unfolding shape low_ratio_member COMMENT_RATIO_MIN_def ..
  have only: "filter (starts_with ''Low comment ratio'') (issues m)
         = ratio_issues (comments m) (sloc m)"
    unfolding shape by (rule filter_ratio_issues)
  have exact: "''Low comment ratio: '' @ format_percent2 (comment_ratio (comments m) (sloc m))
            \<in> set (issues m)
          \<longleftrightarrow> (if sloc m = 0 then 0 else of_nat (comments m) / of_nat (sloc m) :: rat)
                < 1 / 10" if "sloc m < 10 ^ 16"
    unfolding shape low_ratio_member using low_ratio_exact [OF that] .
  show ?thesis
    using r member only exact one_get one_comment_fields ratio_issues_scenario(1,3)
      ratio_ninth_close none_get no_comment_fields
    by blast
qed

theorem comment_ratio_issue_witness:
  "cache_sound ratio_env Map.empty
   \<and> get_code_metrics ratio_env Map.empty (text_file ''proj/one.js'')
       = (Some one_comment_metrics, [''proj/one.js'' \<mapsto> one_comment_metrics])
   \<and> comments one_comment_metrics = 1 \<and> sloc one_comment_metrics = 9
   \<and> comment_ratio (comments one_comment_metrics) (sloc one_comment_metrics)
       = round_to_double (1 / 9)
   \<and> \<not> comment_ratio (comments one_comment_metrics) (sloc one_comment_metrics)
         < round_to_double (1 / 10)
   \<and> filter (starts_with ''Low comment ratio'') (issues one_comment_metrics) = []"
proof -
  note inst = comment_ratio_issue [OF cache_sound_empty one_get]
  from inst have r: "comment_ratio (comments one_comment_metrics) (sloc one_comment_metrics)
       = round_to_double (1 / 9)"
    by (simp add: one_comment_fields)
  from inst have "''Low comment ratio: ''
        @ format_percent2 (comment_ratio (comments one_comment_metrics) (sloc one_comment_metrics))
          \<in> set (issues one_comment_metrics)
      \<longleftrightarrow> comment_ratio (comments one_comment_metrics) (sloc one_comment_metrics)
            < round_to_double (1 / 10)"
    by blast
  then have no: "\<not> comment_ratio (comments one_comment_metrics) (sloc one_comment_metrics)
         < round_to_double (1 / 10)"
    by (simp add: one_comment_fields(4))
  from inst have "filter (starts_with ''Low comment ratio'') (issues one_comment_metrics)
      = ratio_issues (comments one_comment_metrics) (sloc one_comment_metrics)"
    by blast
  then have none: "filter (starts_with ''Low comment ratio'') (issues one_comment_metrics) = []"
    by (simp add: one_comment_fields ratio_issues_scenario)
  show ?thesis
    using cache_sound_empty [of ratio_env] one_get one_comment_fields(2,3) r no none
    by blast
qed

lemma module_compute: "compute_metrics mixed_env (text_file ''proj/a.py'') = Some module_metrics"
  by code_simp

lemma module_get:
  "get_code_metrics mixed_env Map.empty (text_file ''proj/a.py'')
   = (Some module_metrics, module_cache)"
  by (simp add: get_code_metrics_def module_compute path_text_file module_cache_def)

lemma raw_counts_ok_mixed: "raw_counts_ok mixed_env"
  by (auto simp: raw_counts_ok_def mixed_env_def)

lemma module_strategy: "strategy_of (lower (path_suffix ''proj/a.py'')) = Python"
  by code_simp

theorem line_counts_bounded_witness:
  "cache_sound mixed_env Map.empty \<and> raw_counts_ok mixed_env
   \<and> get_code_metrics mixed_env Map.empty (text_file ''proj/a.py'')
       = (Some module_metrics, module_cache)
   \<and> sloc module_metrics \<le> loc module_metrics
   \<and> comments module_metrics \<le> loc module_metrics"
  using line_counts_bounded [OF cache_sound_empty raw_counts_ok_mixed module_get]
    module_get cache_sound_empty [of mixed_env] raw_counts_ok_mixed
  by (simp add: path_text_file module_strategy)

text \<open>
  C3 as stated fails on a markup file of one line that holds two comments.
\<close>

theorem html_comments_exceed_lines:
  "get_code_metrics html_env Map.empty (text_file ''proj/page.html'')
     = (Some html_metrics, [''proj/page.html'' \<mapsto> html_metrics])
   \<and> \<not> comments html_metrics \<le> loc html_metrics"
  using html_get by (simp add: html_metrics_def)

section \<open>Properties of the run\<close>

subsection \<open>A file whose extraction fails\<close>

lemma select_code_files_failed:
  "None \<in> set fms \<Longrightarrow> select_code_files fms = Inl AttributeError"
  by (induction fms rule: select_code_files.induct) (auto split: sum.splits)

lemma analyze_project_failed_file:
  assumes "collect_files E = Inr discovered" and "p \<in> set discovered"
    and "analyze_file E p = None"
  shows "analyze_project E cache = Inl AttributeError"
proof -
  have "None \<in> set (map (analyze_file E) discovered)"
    using assms(2,3) by force
  then show ?thesis
    using assms(1) by (simp add: analyze_project_def Let_def select_code_files_failed)
qed

lemma locked_collect: "collect_files locked_env = Inr [''proj/a.py'', ''proj/locked.py'']"
  by (simp add: collect_files_def locked_env_def text_env_def null_env_def join_path_def
        starts_with_def MAX_FILE_SIZE_def)

lemma locked_analyze: "analyze_file locked_env ''proj/locked.py'' = None"
  by (simp add: analyze_file_def locked_env_def text_env_def null_env_def)

text \<open>
  C1. The claim is that a file whose metadata extraction fails is left out and the run
  completes. In the example tree the extraction of \<open>proj/locked.py\<close> fails, and the run
  ends with the exception raised when the selection of the code files reads the
  category of the missing record.
\<close>

theorem failed_file_aborts_run:
  "collect_files locked_env = Inr [''proj/a.py'', ''proj/locked.py'']
   \<and> analyze_file locked_env ''proj/locked.py'' = None
   \<and> analyze_project locked_env Map.empty = Inl AttributeError"
  using locked_collect locked_analyze
    analyze_project_failed_file [OF locked_collect _ locked_analyze]
  by simp

subsection \<open>Means of a language group\<close>

lemma a_js: "compute_metrics group_env (text_file ''proj/a.js'') = Some small_js_metrics"
  by code_simp
lemma b_js: "compute_metrics group_env (text_file ''proj/b.js'') = Some small_js_metrics"
  by code_simp
lemma gone_js: "compute_metrics group_env (text_file ''proj/gone.js'') = None"
  by code_simp

lemma tfidf_text_env: "tfidf_fit (text_env t texts) docs = None"
  by (simp add: text_env_def null_env_def)

lemma find_duplicates_text_env: "find_duplicates (text_env t texts) fms = []"
  by (simp add: find_duplicates_def similarity_matrix_def tfidf_text_env Let_def)

lemma sum_values_number:
  "sum_values acc vs = Inr t \<Longrightarrow> t = acc + sum_list (map number_of vs)"
  by (induction acc vs rule: sum_values.induct) (auto simp: number_of_def)

lemma valid_results_length:
  "length (valid_results rs) + failed_count rs = length rs"
  by (induction rs rule: valid_results.induct) (auto simp: failed_count_def)

lemma map_get_code_metrics_length:
  "map_get_code_metrics E cache fms = (rs, cache') \<Longrightarrow> length rs = length fms"
  by (induction fms arbitrary: cache rs cache') (auto split: prod.splits)


lemma language_entry_empty:
  "language_entry n [] dups = Inr (zero_entry n)"
  by (simp add: language_entry_def zero_entry_def)

lemma language_entry_valid:
  assumes "valid \<noteq> []" and "language_entry n valid dups = Inr entry"
  shows "lm_files entry = n"
    and "lm_total_loc entry = sum_list (map loc valid)"
    and "lm_avg_complexity entry
           = of_int (sum_list (map complexity valid)) / of_nat (length valid)"
    and "lm_avg_maintainability entry
           = sum_list (map (\<lambda>m. number_of (maintainability m)) valid) / of_nat (length valid)"
    and "lm_duplicates entry = dups"
    and "lm_issues entry = aggregate_issues valid"
proof -
  from assms obtain t where t: "sum_values 0 (map maintainability valid) = Inr t"
    and e: "entry = \<lparr>lm_files = n, lm_total_loc = sum_list (map loc valid),
                  lm_avg_complexity =
                    of_int (sum_list (map complexity valid)) / of_nat (length valid),
                  lm_avg_maintainability = t / of_nat (length valid),
                  lm_duplicates = dups, lm_issues = aggregate_issues valid\<rparr>"
    by (auto simp: language_entry_def split: sum.splits)
  have tsum: "t = sum_list (map (\<lambda>m. number_of (maintainability m)) valid)"
    using sum_values_number [OF t] by (simp add: comp_def)
  show "lm_files entry = n" by (simp add: e)
  show "lm_total_loc entry = sum_list (map loc valid)" by (simp add: e)
  show "lm_avg_complexity entry
           = of_int (sum_list (map complexity valid)) / of_nat (length valid)" by (simp add: e)
  show "lm_avg_maintainability entry
           = sum_list (map (\<lambda>m. number_of (maintainability m)) valid) / of_nat (length valid)"
    by (simp add: e tsum)
  show "lm_duplicates entry = dups" by (simp add: e)
  show "lm_issues entry = aggregate_issues valid" by (simp add: e)
qed

text \<open>
  When a group produces an entry, the means are taken over the valid metrics: of \<open>N\<close>
  files of which \<open>K\<close> yield no metrics, the divisor is \<open>N - K\<close>.
\<close>

lemma group_means_over_valid:
  assumes "map_get_code_metrics E cache fms = (rs, cache')"
    and "analyze_group E cache fms = (Inr entry, cache'')"
  shows "failed_count rs \<le> length fms
    \<and> length (valid_results rs) = length fms - failed_count rs
    \<and> lm_files entry = length fms
    \<and> (failed_count rs < length fms \<longrightarrow>
          lm_avg_complexity entry
            = of_int (sum_list (map complexity (valid_results rs)))
                / of_nat (length fms - failed_count rs)
          \<and> lm_avg_maintainability entry
            = sum_list (map (\<lambda>m. number_of (maintainability m)) (valid_results rs))
                / of_nat (length fms - failed_count rs)
          \<and> lm_total_loc entry = sum_list (map loc (valid_results rs)))
    \<and> (failed_count rs = length fms \<longrightarrow> entry = zero_entry (length fms))"
proof -
  have len: "length rs = length fms" using map_get_code_metrics_length [OF assms(1)] .
  have count: "length (valid_results rs) + failed_count rs = length fms"
    using valid_results_length [of rs] len by simp
  have entry: "language_entry (length fms) (valid_results rs) (find_duplicates E fms) = Inr entry"
    using assms by (simp add: analyze_group_def)
  have n: "length (valid_results rs) = length fms - failed_count rs" using count by simp
  have files: "lm_files entry = length fms"
  proof (cases "valid_results rs = []")
    case True
    then have "entry = zero_entry (length fms)" using entry
      by (simp add: language_entry_empty)
    then show ?thesis by (simp add: zero_entry_def)
  next
    case False
    then show ?thesis using language_entry_valid(1) [OF False entry] by simp
  qed
  have means: "lm_avg_complexity entry
            = of_int (sum_list (map complexity (valid_results rs)))
                / of_nat (length fms - failed_count rs)
          \<and> lm_avg_maintainability entry
            = sum_list (map (\<lambda>m. number_of (maintainability m)) (valid_results rs))
                / of_nat (length fms - failed_count rs)
          \<and> lm_total_loc entry = sum_list (map loc (valid_results rs))"
    if "failed_count rs < length fms"
  proof -
    from that count have ne: "valid_results rs \<noteq> []" by auto
    show ?thesis
      using language_entry_valid(2,3,4) [OF ne entry] unfolding n by simp
  qed
  have zero: "entry = zero_entry (length fms)" if "failed_count rs = length fms"
  proof -
    from that count have "valid_results rs = []" by simp
    then show ?thesis using entry by (simp add: language_entry_empty)
  qed
  show ?thesis using count n files means zero by simp
qed


lemma group_map:
  "map_get_code_metrics group_env Map.empty group_files
   = ([Some small_js_metrics, None, Some small_js_metrics], group_cache)"
  by (simp add: group_files_def get_code_metrics_def a_js b_js gone_js path_text_file
        group_cache_def)

lemma group_analyze:
  "analyze_group group_env Map.empty group_files = (Inr group_entry, group_cache)"
  unfolding analyze_group_def group_map
  by (simp add: group_env_def find_duplicates_text_env language_entry_def
        small_js_metrics_def group_entry_def aggregate_issues_def group_files_def)

lemma group_means_example:
  "map_get_code_metrics group_env Map.empty group_files
     = ([Some small_js_metrics, None, Some small_js_metrics], group_cache)
   \<and> analyze_group group_env Map.empty group_files = (Inr group_entry, group_cache)
   \<and> length group_files = 3
   \<and> failed_count [Some small_js_metrics, None, Some small_js_metrics] = 1
   \<and> lm_avg_maintainability group_entry = (100 + 100) / 2
   \<and> lm_avg_complexity group_entry = (0 + 0) / 2"
  using group_means_over_valid [OF group_map group_analyze] group_map group_analyze
  by (simp add: failed_count_def group_files_def small_js_metrics_def number_of_def)

subsection \<open>A language group that raises\<close>

lemma analyze_groups_append:
  "analyze_groups E cache (xs @ ys)
   = (let (ms1, failed1, c1) = analyze_groups E cache xs;
          (ms2, failed2, c2) = analyze_groups E c1 ys
      in (ms1 @ ms2, failed1 @ failed2, c2))"
proof (induction xs arbitrary: cache)
  case Nil
  then show ?case by (simp split: prod.splits)
next
  case (Cons g xs)
  obtain lang fms where g: "g = (lang, fms)" by (cases g)
  show ?case unfolding g
    by (simp add: Cons.IH split: prod.splits sum.splits)
qed

lemma analyze_groups_keys:
  assumes "analyze_groups E cache groups = (ms, failed, cache')"
  shows "set (map fst ms) \<subseteq> set (map fst groups) \<and> set failed \<subseteq> set (map fst groups)
    \<and> (distinct (map fst groups) \<longrightarrow> distinct (map fst ms))"
  using assms
proof (induction groups arbitrary: cache ms failed cache')
  case Nil
  then show ?case by simp
next
  case (Cons g groups)
  obtain lang fms where g: "g = (lang, fms)" by (cases g)
  obtain r c1 where a: "analyze_group E cache fms = (r, c1)" by fastforce
  obtain ms1 f1 c2 where b: "analyze_groups E c1 groups = (ms1, f1, c2)"
    by (metis prod_cases3)
  note ih = Cons.IH [OF b]
  show ?case
  proof (cases r)
    case (Inl e)
    with Cons.prems g a b have "ms = ms1" "failed = lang # f1" by auto
    then show ?thesis using ih g by auto
  next
    case (Inr entry)
    with Cons.prems g a b have "ms = (lang, entry) # ms1" "failed = f1" by auto
    then show ?thesis using ih g by auto
  qed
qed


lemma analyze_group_no_valid:
  assumes "map_get_code_metrics E cache fms = (rs, cache')" and "valid_results rs = []"
  shows "analyze_group E cache fms = (Inr (zero_entry (length fms)), cache')"
  using assms by (simp add: analyze_group_def language_entry_def zero_entry_def)

text \<open>
  C4, amended. When the body of the loop raises for one language group, the language is
  logged as failed and has no entry in the metrics; the groups before and after it are
  analysed as they are without it, so the run continues. The zero-filled entry is what
  a group gets, without any exception, when none of its files yields metrics.
\<close>

theorem failed_group_is_skipped:
  assumes "distinct (map fst (pre @ (lang, fms) # post))"
    and "analyze_groups E cache pre = (ms1, failed1, c1)"
    and "analyze_group E c1 fms = (Inl e, c2)"
    and "analyze_groups E c2 post = (ms2, failed2, c3)"
  shows "analyze_groups E cache (pre @ (lang, fms) # post)
           = (ms1 @ ms2, failed1 @ lang # failed2, c3)
    \<and> map_of (ms1 @ ms2) lang = None
    \<and> (map_get_code_metrics E c fms' = (rs, c') \<and> valid_results rs = []
         \<longrightarrow> analyze_group E c fms' = (Inr (zero_entry (length fms')), c'))"
proof -
  have step: "analyze_groups E c1 ((lang, fms) # post) = (ms2, lang # failed2, c3)"
    using assms(3,4) by simp
  have run: "analyze_groups E cache (pre @ (lang, fms) # post)
           = (ms1 @ ms2, failed1 @ lang # failed2, c3)"
    by (simp add: analyze_groups_append assms(2) step del: analyze_groups.simps)
  have "lang \<notin> set (map fst pre)" and "lang \<notin> set (map fst post)"
    using assms(1) by auto
  then have "lang \<notin> set (map fst ms1)" and "lang \<notin> set (map fst ms2)"
    using analyze_groups_keys [OF assms(2)] analyze_groups_keys [OF assms(4)] by auto
  then have absent: "map_of (ms1 @ ms2) lang = None"
    by (simp add: map_of_eq_None_iff)
  show ?thesis using run absent analyze_group_no_valid by blast
qed

lemma script_compute: "compute_metrics mixed_env (text_file ''proj/b.js'') = Some script_metrics"
  by code_simp

lemma mixed_groups:
  "group_by_language [] [text_file ''proj/a.py'', text_file ''proj/b.js'']
   = Inr [(''python'', [text_file ''proj/a.py'']), (''javascript'', [text_file ''proj/b.js''])]"
  by code_simp

lemma find_duplicates_mixed: "find_duplicates mixed_env fms = []"
  by (simp add: find_duplicates_def similarity_matrix_def mixed_env_def text_env_def
        null_env_def Let_def)

lemma module_group:
  "analyze_group mixed_env Map.empty [text_file ''proj/a.py''] = (Inl TypeError, module_cache)"
  by (simp add: analyze_group_def get_code_metrics_def module_compute path_text_file
        language_entry_def module_metrics_def module_cache_def)

lemma script_group:
  "analyze_group mixed_env module_cache [text_file ''proj/b.js''] = (Inr script_entry, mixed_cache)"
  by (simp add: analyze_group_def get_code_metrics_def script_compute path_text_file
        language_entry_def script_metrics_def module_cache_def mixed_cache_def
        find_duplicates_mixed script_entry_def aggregate_issues_def)

lemma script_groups:
  "analyze_groups mixed_env module_cache [(''javascript'', [text_file ''proj/b.js''])]
   = ([(''javascript'', script_entry)], [], mixed_cache)"
  by (simp add: script_group)

text \<open>
  C4 as stated fails: the group of the module raises at the sum of the
  maintainability values, and the result has no entry for \<open>python\<close>.
\<close>

theorem failed_group_has_no_entry:
  "analyze_group mixed_env Map.empty [text_file ''proj/a.py''] = (Inl TypeError, module_cache)
   \<and> analyze_code_files mixed_env Map.empty [text_file ''proj/a.py'', text_file ''proj/b.js'']
       = Inr ([(''javascript'', script_entry)], [''python''], mixed_cache)
   \<and> map_of [(''javascript'', script_entry)] ''python'' = None"
  unfolding analyze_code_files_def mixed_groups
  by (simp add: module_group script_group)

theorem failed_group_is_skipped_witness:
  "distinct (map fst ([] @ (''python'', [text_file ''proj/a.py''])
        # [(''javascript'', [text_file ''proj/b.js''])]))
   \<and> analyze_groups mixed_env Map.empty [] = ([], [], Map.empty)
   \<and> analyze_group mixed_env Map.empty [text_file ''proj/a.py''] = (Inl TypeError, module_cache)
   \<and> analyze_groups mixed_env module_cache [(''javascript'', [text_file ''proj/b.js''])]
       = ([(''javascript'', script_entry)], [], mixed_cache)
   \<and> analyze_groups mixed_env Map.empty
         ([] @ (''python'', [text_file ''proj/a.py''])
            # [(''javascript'', [text_file ''proj/b.js''])])
       = ([] @ [(''javascript'', script_entry)], [] @ ''python'' # [], mixed_cache)
   \<and> map_of ([] @ [(''javascript'', script_entry)]) ''python'' = None"
proof -
  have d: "distinct (map fst ([] @ (''python'', [text_file ''proj/a.py''])
        # [(''javascript'', [text_file ''proj/b.js''])]))" by simp
  have e: "analyze_groups mixed_env Map.empty [] = ([], [], Map.empty)" by simp
  show ?thesis
    using failed_group_is_skipped [OF d e module_group script_groups] d e module_group script_groups
    by blast
qed

subsection \<open>The group of a module that parses\<close>

lemma module_batch:
  "map_get_code_metrics mixed_env Map.empty [text_file ''proj/a.py'']
   = ([Some module_metrics], module_cache)"
  by (simp add: get_code_metrics_def module_compute path_text_file module_cache_def)

lemma module_groups:
  "group_by_language [] [text_file ''proj/a.py''] = Inr [(''python'', [text_file ''proj/a.py''])]"
  by code_simp

lemma module_code_files:
  "analyze_code_files mixed_env Map.empty [text_file ''proj/a.py'']
   = Inr ([], [''python''], module_cache)"
  unfolding analyze_code_files_def module_groups
  by (simp add: module_group)

text \<open>
  C5. The claim is that the means of every language group are taken over its valid
  metrics, \<open>N - K\<close> of them. The group of the example holds one module, which parses and
  yields metrics (\<open>N = 1\<close>, \<open>K = 0\<close>), and no mean is produced for it: the
  maintainability stored for the module is the report of \<open>h_visit\<close>, the sum of the
  maintainability values raises, and the language is skipped.
\<close>

theorem python_group_has_no_mean:
  "map_get_code_metrics mixed_env Map.empty [text_file ''proj/a.py'']
     = ([Some module_metrics], module_cache)
   \<and> failed_count [Some module_metrics] = 0
   \<and> maintainability module_metrics = Object
   \<and> analyze_group mixed_env Map.empty [text_file ''proj/a.py'']
       = (Inl TypeError, module_cache)
   \<and> analyze_code_files mixed_env Map.empty [text_file ''proj/a.py'']
       = Inr ([], [''python''], module_cache)"
  using module_batch module_group module_code_files
  by (simp add: failed_count_def module_metrics_def)

subsection \<open>The project summary\<close>

lemma setdefault_append_keys:
  "map fst (setdefault_append k v kvs)
   = (if k \<in> set (map fst kvs) then map fst kvs else map fst kvs @ [k])"
  by (induction k v kvs rule: setdefault_append.induct) auto

lemma setdefault_append_distinct:
  "distinct (map fst kvs) \<Longrightarrow> distinct (map fst (setdefault_append k v kvs))"
  by (simp add: setdefault_append_keys)

lemma group_by_language_distinct:
  "group_by_language acc fms = Inr groups \<Longrightarrow> distinct (map fst acc)
   \<Longrightarrow> distinct (map fst groups)"
proof (induction acc fms rule: group_by_language.induct)
  case (1 by_language)
  then show ?case by simp
next
  case (2 by_language fm fms)
  then show ?case
    by (auto split: sum.splits simp: setdefault_append_distinct)
qed

lemma analyze_code_files_distinct:
  assumes "analyze_code_files E cache code_files = Inr (ms, failed, cache')"
  shows "distinct (map fst ms)"
proof -
  from assms obtain groups where g: "group_by_language [] code_files = Inr groups"
    and a: "analyze_groups E cache groups = (ms, failed, cache')"
    by (auto simp: analyze_code_files_def split: sum.splits)
  have "distinct (map fst groups)" using group_by_language_distinct [OF g] by simp
  then show ?thesis using analyze_groups_keys [OF a] by simp
qed

lemma analyze_project_result:
  assumes "analyze_project E cache = Inr (res, failed, cache')"
  shows "distinct (map fst (metrics res))"
    and "summary res = generate_project_summary (categorized res) (metrics res)"
proof -
  from assms obtain discovered code_files ms where
    a: "analyze_code_files E cache code_files = Inr (ms, failed, cache')"
    and r: "res = \<lparr>summary = generate_project_summary
                        (categorize_files [] (map (analyze_file E) discovered)) ms,
                    categorized = categorize_files [] (map (analyze_file E) discovered),
                    metrics = ms, timestamp = now E\<rparr>"
    by (auto simp: analyze_project_def Let_def split: sum.splits prod.splits)
  show "distinct (map fst (metrics res))"
    using analyze_code_files_distinct [OF a] by (simp add: r)
  show "summary res = generate_project_summary (categorized res) (metrics res)"
    by (simp add: r)
qed

lemma summary_means:
  assumes "distinct (map fst code_metrics)" and "code_metrics \<noteq> []"
  shows "cs_avg_complexity (code_stats (generate_project_summary cats code_metrics))
           = sum_list (map (\<lambda>(lang, m). lm_avg_complexity m) code_metrics)
               / of_nat (length code_metrics)"
    and "cs_avg_maintainability (code_stats (generate_project_summary cats code_metrics))
           = sum_list (map (\<lambda>(lang, m). lm_avg_maintainability m) code_metrics)
               / of_nat (length code_metrics)"
proof -
  have card: "card (set (map fst code_metrics)) = length code_metrics"
    using distinct_card [OF assms(1)] by simp
  have ne: "set (map fst code_metrics) \<noteq> {}" using assms(2) by simp
  show "cs_avg_complexity (code_stats (generate_project_summary cats code_metrics))
           = sum_list (map (\<lambda>(lang, m). lm_avg_complexity m) code_metrics)
               / of_nat (length code_metrics)"
    unfolding generate_project_summary_def Let_def using card ne by simp
  show "cs_avg_maintainability (code_stats (generate_project_summary cats code_metrics))
           = sum_list (map (\<lambda>(lang, m). lm_avg_maintainability m) code_metrics)
               / of_nat (length code_metrics)"
    unfolding generate_project_summary_def Let_def using card ne by simp
qed

lemma empty_tree_collect: "tree E = [] \<Longrightarrow> collect_files E = Inr []"
  by (simp add: collect_files_def)

lemma empty_run:
  assumes "collect_files E = Inr []"
  shows "analyze_project E cache
    = Inr (\<lparr>summary =
              \<lparr>total_files = 0, ps_total_size = 0, languages = {},
               code_stats = \<lparr>cs_total_loc = 0, cs_avg_complexity = 0,
                             cs_avg_maintainability = 0, cs_total_issues = 0\<rparr>,
               categories = []\<rparr>,
            categorized = [], metrics = [], timestamp = now E\<rparr>, [], cache)"
  using assms
  by (simp add: analyze_project_def analyze_code_files_def generate_project_summary_def)


lemma run_collect: "collect_files run_env = Inr [''proj/a.js'', ''proj/src/b.go'']"
  by (simp add: collect_files_def run_env_def text_env_def null_env_def join_path_def
        starts_with_def MAX_FILE_SIZE_def)

lemma run_category_a: "categorize_file ''proj/a.js'' = ''code/javascript''"
  by code_simp

lemma run_category_b: "categorize_file ''proj/src/b.go'' = ''code/go''"
  by code_simp

lemma run_analyze_a: "analyze_file run_env ''proj/a.js'' = Some run_file_a"
  by (simp add: analyze_file_def detect_encoding_def calculate_file_hash_def run_env_def
        text_env_def null_env_def starts_with_def run_category_a run_file_a_def)

lemma run_analyze_b: "analyze_file run_env ''proj/src/b.go'' = Some run_file_b"
  by (simp add: analyze_file_def detect_encoding_def calculate_file_hash_def run_env_def
        text_env_def null_env_def starts_with_def run_category_b run_file_b_def)

lemma run_categorize:
  "categorize_files [] [Some run_file_a, Some run_file_b] = run_categorized"
  by (simp add: run_file_a_def run_file_b_def file_entry_of_def run_categorized_def)

lemma run_select: "select_code_files [Some run_file_a, Some run_file_b] = Inr [run_file_a, run_file_b]"
  by (simp add: run_file_a_def run_file_b_def starts_with_def)

lemma run_groups:
  "group_by_language [] [run_file_a, run_file_b]
   = Inr [(''javascript'', [run_file_a]), (''go'', [run_file_b])]"
  by (simp add: run_file_a_def run_file_b_def language_of_def)

lemma run_compute_a: "compute_metrics run_env run_file_a = Some script_metrics"
  by code_simp

lemma run_compute_b: "compute_metrics run_env run_file_b = Some go_metrics"
  by code_simp

lemma run_duplicates: "find_duplicates run_env fms = []"
  by (simp add: run_env_def find_duplicates_text_env)

lemma run_paths: "path run_file_a = ''proj/a.js''" "path run_file_b = ''proj/src/b.go''"
  by (simp_all add: run_file_a_def run_file_b_def)

lemma run_group_a:
  "analyze_group run_env Map.empty [run_file_a]
   = (Inr script_entry, [''proj/a.js'' \<mapsto> script_metrics])"
  by (simp add: analyze_group_def get_code_metrics_def run_compute_a run_paths
        run_duplicates language_entry_def script_metrics_def script_entry_def
        aggregate_issues_def)

lemma run_group_b:
  "analyze_group run_env [''proj/a.js'' \<mapsto> script_metrics] [run_file_b]
   = (Inr go_entry, run_cache)"
  by (simp add: analyze_group_def get_code_metrics_def run_compute_b run_paths
        run_duplicates language_entry_def go_metrics_def go_entry_def
        aggregate_issues_def run_cache_def)

lemma run_code_files:
  "analyze_code_files run_env Map.empty [run_file_a, run_file_b]
   = Inr (run_metrics, [], run_cache)"
  unfolding analyze_code_files_def run_groups
  by (simp add: run_group_a run_group_b run_metrics_def)

lemma run_now: "now run_env = ''2024-01-01T00:00:00''"
  by (simp add: run_env_def text_env_def null_env_def)

lemma run_metadata:
  "map (analyze_file run_env) [''proj/a.js'', ''proj/src/b.go'']
   = [Some run_file_a, Some run_file_b]"
  by (simp add: run_analyze_a run_analyze_b)

lemma run_project: "analyze_project run_env Map.empty = Inr (run_result, [], run_cache)"
  unfolding analyze_project_def run_collect
  by (simp only: sum.case Let_def run_metadata run_categorize run_select run_code_files
        prod.case run_now run_result_def)

text \<open>
  C9. In the summary of a run with at least one language entry, and in every summary
  made from the entries of a dictionary, the aggregate complexity and maintainability
  are the sums of the per-language means divided by the number of languages, whatever
  the file counts of the languages. When no file is discovered, as in an empty tree,
  the run completes with 0 files, no language, and every aggregate statistic at 0.
\<close>

theorem summary_mean_of_means:
  "(analyze_project E cache = Inr (res, failed, cache') \<and> metrics res \<noteq> [] \<longrightarrow>
      cs_avg_complexity (code_stats (summary res))
        = sum_list (map (\<lambda>(lang, m). lm_avg_complexity m) (metrics res))
            / of_nat (length (metrics res))
      \<and> cs_avg_maintainability (code_stats (summary res))
        = sum_list (map (\<lambda>(lang, m). lm_avg_maintainability m) (metrics res))
            / of_nat (length (metrics res)))
   \<and> (distinct (map fst code_metrics) \<and> code_metrics \<noteq> [] \<longrightarrow>
      cs_avg_complexity (code_stats (generate_project_summary cats code_metrics))
        = sum_list (map (\<lambda>(lang, m). lm_avg_complexity m) code_metrics)
            / of_nat (length code_metrics)
      \<and> cs_avg_maintainability (code_stats (generate_project_summary cats code_metrics))
        = sum_list (map (\<lambda>(lang, m). lm_avg_maintainability m) code_metrics)
            / of_nat (length code_metrics))
   \<and> (collect_files E0 = Inr [] \<longrightarrow>
      analyze_project E0 cache0
        = Inr (\<lparr>summary =
                  \<lparr>total_files = 0, ps_total_size = 0, languages = {},
                   code_stats = \<lparr>cs_total_loc = 0, cs_avg_complexity = 0,
                                 cs_avg_maintainability = 0, cs_total_issues = 0\<rparr>,
                   categories = []\<rparr>,
                categorized = [], metrics = [], timestamp = now E0\<rparr>, [], cache0))
   \<and> (tree E0 = [] \<longrightarrow> collect_files E0 = Inr [])"
proof (intro conjI impI)
  assume a: "analyze_project E cache = Inr (res, failed, cache') \<and> metrics res \<noteq> []"
  then have d: "distinct (map fst (metrics res))"
    and s: "summary res = generate_project_summary (categorized res) (metrics res)"
    using analyze_project_result by blast+
  from a have ne: "metrics res \<noteq> []" by simp
  show "cs_avg_complexity (code_stats (summary res))
        = sum_list (map (\<lambda>(lang, m). lm_avg_complexity m) (metrics res))
            / of_nat (length (metrics res))"
    unfolding s using summary_means(1) [OF d ne] .
  show "cs_avg_maintainability (code_stats (summary res))
        = sum_list (map (\<lambda>(lang, m). lm_avg_maintainability m) (metrics res))
            / of_nat (length (metrics res))"
    unfolding s using summary_means(2) [OF d ne] .
next
  assume b: "distinct (map fst code_metrics) \<and> code_metrics \<noteq> []"
  then have d: "distinct (map fst code_metrics)" and ne: "code_metrics \<noteq> []" by simp_all
  show "cs_avg_complexity (code_stats (generate_project_summary cats code_metrics))
        = sum_list (map (\<lambda>(lang, m). lm_avg_complexity m) code_metrics)
            / of_nat (length code_metrics)"
    using summary_means(1) [OF d ne] .
  show "cs_avg_maintainability (code_stats (generate_project_summary cats code_metrics))
        = sum_list (map (\<lambda>(lang, m). lm_avg_maintainability m) code_metrics)
            / of_nat (length code_metrics)"
    using summary_means(2) [OF d ne] .
next
  assume "collect_files E0 = Inr []"
  then show "analyze_project E0 cache0
        = Inr (\<lparr>summary =
                  \<lparr>total_files = 0, ps_total_size = 0, languages = {},
                   code_stats = \<lparr>cs_total_loc = 0, cs_avg_complexity = 0,
                                 cs_avg_maintainability = 0, cs_total_issues = 0\<rparr>,
                   categories = []\<rparr>,
                categorized = [], metrics = [], timestamp = now E0\<rparr>, [], cache0)"
    by (rule empty_run)
next
  assume "tree E0 = []"
  then show "collect_files E0 = Inr []" by (rule empty_tree_collect)
qed


lemma null_tree: "tree null_env = []"
  by (simp add: null_env_def)

lemma two_languages_keys: "distinct (map fst two_languages) \<and> two_languages \<noteq> []"
  by (simp add: two_languages_def)

lemma run_metrics_values:
  "metrics run_result \<noteq> []"
  "sum_list (map (\<lambda>(lang, m). lm_avg_maintainability m) (metrics run_result)) = 100 + 100"
  "length (metrics run_result) = 2"
  by (simp_all add: run_result_def run_metrics_def script_entry_def go_entry_def)

lemma two_languages_values:
  "sum_list (map (\<lambda>(lang, m). lm_avg_complexity m) two_languages) = 2 + 4"
  "sum_list (map (\<lambda>(lang, m). lm_avg_maintainability m) two_languages) = 100 + 50"
  "length two_languages = 2"
  by (simp_all add: two_languages_def)

theorem summary_mean_of_means_witness:
  "analyze_project run_env Map.empty = Inr (run_result, [], run_cache)
   \<and> metrics run_result \<noteq> []
   \<and> cs_avg_maintainability (code_stats (summary run_result)) = (100 + 100) / 2
   \<and> distinct (map fst two_languages) \<and> two_languages \<noteq> []
   \<and> cs_avg_complexity (code_stats (generate_project_summary [] two_languages)) = (2 + 4) / 2
   \<and> cs_avg_maintainability (code_stats (generate_project_summary [] two_languages))
       = (100 + 50) / 2
   \<and> tree null_env = [] \<and> collect_files null_env = Inr []
   \<and> analyze_project null_env Map.empty
       = Inr (\<lparr>summary =
                 \<lparr>total_files = 0, ps_total_size = 0, languages = {},
                  code_stats = \<lparr>cs_total_loc = 0, cs_avg_complexity = 0,
                                cs_avg_maintainability = 0, cs_total_issues = 0\<rparr>,
                  categories = []\<rparr>,
               categorized = [], metrics = [], timestamp = now null_env\<rparr>, [], Map.empty)"
  using summary_mean_of_means [where E = run_env and cache = Map.empty and res = run_result
              and failed = "[]" and cache' = run_cache and code_metrics = two_languages
              and cats = "[]" and ?E0.0 = null_env and ?cache0.0 = Map.empty]
    run_project null_tree two_languages_keys run_metrics_values(1)
  unfolding run_metrics_values(2,3) two_languages_values
  by simp

section \<open>Properties of the duplicate detection\<close>

lemma dot_commute: "dot u v = dot v u"
proof -
  have "map2 (*) u v = map2 (*) v u" for u v :: "real list"
  proof (induction u arbitrary: v)
    case Nil
    then show ?case by simp
  next
    case (Cons x u)
    then show ?case by (cases v) (simp_all add: mult.commute)
  qed
  then show ?thesis by (simp add: dot_def)
qed

lemma cosine_similarity_nth:
  assumes "i < length X" and "j < length X"
  shows "cosine_similarity X ! i ! j = dot (normalize_row (X ! i)) (normalize_row (X ! j))"
  using assms by (simp add: cosine_similarity_def Let_def)

lemma cosine_similarity_symmetric:
  assumes "i < length X" and "j < length X"
  shows "cosine_similarity X ! i ! j = cosine_similarity X ! j ! i"
  using assms by (simp add: cosine_similarity_nth dot_commute)

lemma similarity_matrix_symmetric:
  assumes "similarity_matrix E fms = Some K" and "i < length fms" and "j < length fms"
  shows "K ! i ! j = K ! j ! i"
proof -
  from assms(1) obtain row where
    K: "K = cosine_similarity (map row (read_contents E fms))"
    by (auto simp: similarity_matrix_def Let_def split: if_splits option.splits)
  have len: "length (map row (read_contents E fms)) = length fms"
    by (simp add: read_contents_def)
  show ?thesis unfolding K
    using cosine_similarity_symmetric [of i "map row (read_contents E fms)" j] assms(2,3) len
    by simp
qed

lemma concat_map_if:
  "concat (map (\<lambda>x. if P x then [f x] else []) xs) = map f (filter P xs)"
  by (induction xs) simp_all

lemma scan_pairs_index_pairs:
  "scan_pairs fms K
   = map (\<lambda>(i, j). \<lparr>file1 = path (fms ! i), file2 = path (fms ! j), similarity = K ! i ! j\<rparr>)
       (filter (\<lambda>(i, j). K ! i ! j > SIMILARITY_THRESHOLD) (index_pairs (length fms)))"
proof -
  have inner: "concat (map (\<lambda>j. if K ! i ! j > SIMILARITY_THRESHOLD
         then [\<lparr>file1 = path (fms ! i), file2 = path (fms ! j), similarity = K ! i ! j\<rparr>]
         else []) js)
     = map (\<lambda>(i, j). \<lparr>file1 = path (fms ! i), file2 = path (fms ! j), similarity = K ! i ! j\<rparr>)
        (filter (\<lambda>(i, j). K ! i ! j > SIMILARITY_THRESHOLD) (map (Pair i) js))" for i js
    by (induction js) simp_all
  show ?thesis
    unfolding scan_pairs_def index_pairs_def inner
    by (simp add: map_concat filter_concat comp_def)
qed

lemma set_index_pairs: "set (index_pairs n) = {(i, j). i < j \<and> j < n}"
proof -
  have "(a, b) \<in> set (index_pairs n) \<longleftrightarrow> a < b \<and> b < n" for a b
    by (force simp: index_pairs_def)
  then show ?thesis by auto
qed

lemma distinct_concat_map:
  assumes "distinct xs" and "\<And>x. x \<in> set xs \<Longrightarrow> distinct (f x)"
    and "\<And>x y. x \<in> set xs \<Longrightarrow> y \<in> set xs \<Longrightarrow> x \<noteq> y \<Longrightarrow> set (f x) \<inter> set (f y) = {}"
  shows "distinct (concat (map f xs))"
  using assms
proof (induction xs)
  case Nil
  then show ?case by simp
next
  case (Cons x xs)
  have "set (f x) \<inter> set (f y) = {}" if "y \<in> set xs" for y
    using Cons.prems(1) Cons.prems(3) [of x y] that by auto
  then have "set (f x) \<inter> \<Union> (set ` f ` set xs) = {}" by blast
  moreover have "distinct (concat (map f xs))"
    using Cons by simp
  ultimately show ?case using Cons.prems(2) [of x] by simp
qed

lemma distinct_index_pairs: "distinct (index_pairs n)"
  unfolding index_pairs_def
  by (rule distinct_concat_map) (auto simp: distinct_map inj_on_def)


lemma find_duplicates_none:
  "similarity_matrix E fms = None \<Longrightarrow> find_duplicates E fms = []"
  by (simp add: find_duplicates_def)

lemma find_duplicates_member:
  assumes "similarity_matrix E fms = Some K"
  shows "d \<in> set (find_duplicates E fms) \<longleftrightarrow>
         (\<exists>i j. i < j \<and> j < length fms \<and> K ! i ! j > SIMILARITY_THRESHOLD
            \<and> d = \<lparr>file1 = path (fms ! i), file2 = path (fms ! j), similarity = K ! i ! j\<rparr>)"
  unfolding find_duplicates_def assms option.case scan_pairs_index_pairs
  by (auto simp: set_index_pairs)

lemma path_nth_eq:
  assumes "distinct (map path fms)" and "i < length fms" and "j < length fms"
  shows "path (fms ! i) = path (fms ! j) \<longleftrightarrow> i = j"
  using assms nth_eq_iff_index_eq [of "map path fms" i j] by simp

lemma unordered_pair_inj:
  assumes "distinct (map path fms)"
  shows "inj_on (\<lambda>(i, j). {path (fms ! i), path (fms ! j)}) (set (index_pairs (length fms)))"
proof (rule inj_onI)
  fix a b
  assume a: "a \<in> set (index_pairs (length fms))" and b: "b \<in> set (index_pairs (length fms))"
    and eq: "(case a of (i, j) \<Rightarrow> {path (fms ! i), path (fms ! j)})
             = (case b of (i, j) \<Rightarrow> {path (fms ! i), path (fms ! j)})"
  obtain i j where ij: "a = (i, j)" by (cases a)
  obtain k l where kl: "b = (k, l)" by (cases b)
  from a ij have 1: "i < j" "j < length fms" by (simp_all add: set_index_pairs)
  from b kl have 2: "k < l" "l < length fms" by (simp_all add: set_index_pairs)
  from eq ij kl have "{path (fms ! i), path (fms ! j)} = {path (fms ! k), path (fms ! l)}"
    by simp
  then have "(path (fms ! i) = path (fms ! k) \<and> path (fms ! j) = path (fms ! l))
      \<or> (path (fms ! i) = path (fms ! l) \<and> path (fms ! j) = path (fms ! k))"
    by (simp add: doubleton_eq_iff)
  then have "(i = k \<and> j = l) \<or> (i = l \<and> j = k)"
    using path_nth_eq [OF assms] 1 2 by (metis less_trans)
  then show "a = b" using 1 2 ij kl by auto
qed

lemma find_duplicates_unordered_distinct:
  assumes "distinct (map path fms)" and "similarity_matrix E fms = Some K"
  shows "distinct (map (\<lambda>d. {file1 d, file2 d}) (find_duplicates E fms))"
proof -
  let ?sel = "filter (\<lambda>(i, j). K ! i ! j > SIMILARITY_THRESHOLD) (index_pairs (length fms))"
  have m: "map (\<lambda>d. {file1 d, file2 d}) (find_duplicates E fms)
         = map (\<lambda>(i, j). {path (fms ! i), path (fms ! j)}) ?sel"
    unfolding find_duplicates_def assms(2) option.case scan_pairs_index_pairs
    by (simp add: comp_def case_prod_unfold)
  have "inj_on (\<lambda>(i, j). {path (fms ! i), path (fms ! j)}) (set ?sel)"
    using unordered_pair_inj [OF assms(1)] by (rule inj_on_subset) auto
  then show ?thesis
    unfolding m using distinct_index_pairs by (simp add: distinct_map)
qed

text \<open>
  C6. Within a language group whose files have distinct paths, as discovery gives
  them, and whose similarity matrix \<open>K\<close> is computed: \<open>K\<close> is symmetric; no reported
  pair has the same file twice; no unordered pair of files is reported twice, and in
  each reported pair the first file comes earlier in the list than the second; and the
  pair of two positions is reported exactly when their similarity is strictly above
  0.8. When the similarity step fails, nothing is reported.
\<close>

theorem duplicates_symmetric_once:
  "(similarity_matrix E fms = None \<longrightarrow> find_duplicates E fms = [])
   \<and> (distinct (map path fms) \<and> similarity_matrix E fms = Some K \<longrightarrow>
        (\<forall>i < length fms. \<forall>j < length fms. K ! i ! j = K ! j ! i)
        \<and> (\<forall>d \<in> set (find_duplicates E fms). file1 d \<noteq> file2 d)
        \<and> distinct (map (\<lambda>d. {file1 d, file2 d}) (find_duplicates E fms))
        \<and> (\<forall>d \<in> set (find_duplicates E fms).
              \<exists>i j. i < j \<and> j < length fms \<and> file1 d = path (fms ! i)
                \<and> file2 d = path (fms ! j) \<and> similarity d = K ! i ! j)
        \<and> (\<forall>i j. i < j \<and> j < length fms \<longrightarrow>
              (\<lparr>file1 = path (fms ! i), file2 = path (fms ! j), similarity = K ! i ! j\<rparr>
                 \<in> set (find_duplicates E fms)
               \<longleftrightarrow> K ! i ! j > 8 / 10)))"
proof (intro conjI impI)
  assume "similarity_matrix E fms = None"
  then show "find_duplicates E fms = []" by (rule find_duplicates_none)
next
  assume a: "distinct (map path fms) \<and> similarity_matrix E fms = Some K"
  then have d: "distinct (map path fms)" and K: "similarity_matrix E fms = Some K"
    by simp_all
  note mem = find_duplicates_member [OF K]
  show "\<forall>i < length fms. \<forall>j < length fms. K ! i ! j = K ! j ! i"
    using similarity_matrix_symmetric [OF K] by blast
  show "\<forall>d \<in> set (find_duplicates E fms). file1 d \<noteq> file2 d"
  proof
    fix x assume "x \<in> set (find_duplicates E fms)"
    then obtain i j where "i < j" "j < length fms"
      "x = \<lparr>file1 = path (fms ! i), file2 = path (fms ! j), similarity = K ! i ! j\<rparr>"
      using mem by blast
    then show "file1 x \<noteq> file2 x" using path_nth_eq [OF d, of i j] by simp
  qed
  show "distinct (map (\<lambda>d. {file1 d, file2 d}) (find_duplicates E fms))"
    using find_duplicates_unordered_distinct [OF d K] .
  show "\<forall>d \<in> set (find_duplicates E fms).
              \<exists>i j. i < j \<and> j < length fms \<and> file1 d = path (fms ! i)
                \<and> file2 d = path (fms ! j) \<and> similarity d = K ! i ! j"
  proof
    fix x assume "x \<in> set (find_duplicates E fms)"
    then obtain i j where "i < j" "j < length fms"
      "x = \<lparr>file1 = path (fms ! i), file2 = path (fms ! j), similarity = K ! i ! j\<rparr>"
      using mem by blast
    then show "\<exists>i j. i < j \<and> j < length fms \<and> file1 x = path (fms ! i)
                \<and> file2 x = path (fms ! j) \<and> similarity x = K ! i ! j"
      by (intro exI [of _ i] exI [of _ j]) simp
  qed
  show "\<forall>i j. i < j \<and> j < length fms \<longrightarrow>
              (\<lparr>file1 = path (fms ! i), file2 = path (fms ! j), similarity = K ! i ! j\<rparr>
                 \<in> set (find_duplicates E fms)
               \<longleftrightarrow> K ! i ! j > 8 / 10)"
  proof (intro allI impI)
    fix i j assume ij: "i < j \<and> j < length fms"
    show "\<lparr>file1 = path (fms ! i), file2 = path (fms ! j), similarity = K ! i ! j\<rparr>
                 \<in> set (find_duplicates E fms)
               \<longleftrightarrow> K ! i ! j > 8 / 10"
    proof
      assume "\<lparr>file1 = path (fms ! i), file2 = path (fms ! j), similarity = K ! i ! j\<rparr>
                 \<in> set (find_duplicates E fms)"
      then obtain k l where kl: "k < l" "l < length fms" "K ! k ! l > SIMILARITY_THRESHOLD"
        "path (fms ! i) = path (fms ! k)" "path (fms ! j) = path (fms ! l)"
        using mem by auto
      then have "i = k" "j = l" using path_nth_eq [OF d] ij by auto
      then show "K ! i ! j > 8 / 10" using kl(3) by (simp add: SIMILARITY_THRESHOLD_def)
    next
      assume "K ! i ! j > 8 / 10"
      then show "\<lparr>file1 = path (fms ! i), file2 = path (fms ! j), similarity = K ! i ! j\<rparr>
                 \<in> set (find_duplicates E fms)"
        using mem ij by (auto simp: SIMILARITY_THRESHOLD_def)
    qed
  qed
qed


lemma dup_contents: "read_contents dup_env dup_files = [''aa'', ''bb'', ''aa'']"
  by (simp add: read_contents_def dup_env_def dup_files_def text_env_def null_env_def
        text_file_def)

lemma dup_rows: "normalize_row [1, 0] = [1, 0]" "normalize_row [0, 1] = [0, 1]"
  by (simp_all add: normalize_row_def dot_def)

lemma dup_fit:
  "tfidf_fit dup_env docs = Some (\<lambda>doc. if doc = ''bb'' then [0, 1] else [1, 0])"
  by (simp add: dup_env_def)

lemma dup_similarity: "similarity_matrix dup_env dup_files = Some dup_matrix"
  unfolding similarity_matrix_def dup_contents Let_def dup_fit
  by (simp add: cosine_similarity_def dup_rows dot_def dup_matrix_def)

lemma dup_paths: "map path dup_files = [''proj/x.js'', ''proj/y.js'', ''proj/z.js'']"
  by (simp add: dup_files_def path_text_file)

lemma dup_scan:
  "scan_pairs dup_files dup_matrix
   = [\<lparr>file1 = ''proj/x.js'', file2 = ''proj/z.js'', similarity = 1\<rparr>]"
  by (simp add: scan_pairs_def dup_files_def dup_matrix_def path_text_file
        SIMILARITY_THRESHOLD_def upt_rec)

lemma dup_found:
  "find_duplicates dup_env dup_files
   = [\<lparr>file1 = ''proj/x.js'', file2 = ''proj/z.js'', similarity = 1\<rparr>]"
  by (simp add: find_duplicates_def dup_similarity dup_scan)

theorem duplicates_symmetric_once_witness:
  "distinct (map path dup_files)
   \<and> similarity_matrix dup_env dup_files = Some dup_matrix
   \<and> find_duplicates dup_env dup_files
       = [\<lparr>file1 = ''proj/x.js'', file2 = ''proj/z.js'', similarity = 1\<rparr>]
   \<and> dup_matrix ! 0 ! 2 = dup_matrix ! 2 ! 0
   \<and> distinct (map (\<lambda>d. {file1 d, file2 d}) (find_duplicates dup_env dup_files))
   \<and> file1 (hd (find_duplicates dup_env dup_files))
       \<noteq> file2 (hd (find_duplicates dup_env dup_files))"
proof -
  have d: "distinct (map path dup_files)" by (simp add: dup_paths)
  have l: "length dup_files = 3" by (simp add: dup_files_def)
  from duplicates_symmetric_once [of dup_env dup_files dup_matrix] d dup_similarity
  have sym: "\<forall>i < length dup_files. \<forall>j < length dup_files.
               dup_matrix ! i ! j = dup_matrix ! j ! i"
    and self: "\<forall>d \<in> set (find_duplicates dup_env dup_files). file1 d \<noteq> file2 d"
    and once: "distinct (map (\<lambda>d. {file1 d, file2 d}) (find_duplicates dup_env dup_files))"
    by blast+
  from sym l have "dup_matrix ! 0 ! 2 = dup_matrix ! 2 ! 0" by simp
  moreover have "hd (find_duplicates dup_env dup_files) \<in> set (find_duplicates dup_env dup_files)"
    by (simp add: dup_found)
  ultimately show ?thesis using d dup_similarity dup_found self once by blast
qed

end
